theory Spec2Isabelle
  imports Main "HOL-Library.Word" "HOL-Library.Sublist"
begin

section \<open>Hash messaging: the codec\<close>

text \<open>
  The library has two near-duplicate modules: \<^verbatim>\<open>hash-messaging-bg.js\<close> (the background
  side, one channel per tab) and the content side (one channel, guarded by a session
  secret). Both start with the same codec: \<^verbatim>\<open>encodeBase64\<close>, \<^verbatim>\<open>decodeBase64\<close> and
  \<^verbatim>\<open>chunkString\<close>.

  A JavaScript string is a sequence of UTF-16 code units. The text handed to
  \<^verbatim>\<open>encodeBase64\<close> is such a sequence; everything after \<^verbatim>\<open>unescape(encodeURIComponent(str))\<close>
  (the binary string, its base64 form, the frames and the URL fragment) only holds
  code units below 256 and is a \<^typ>\<open>string\<close> here.
\<close>

type_synonym utf16 = "16 word list"

datatype exn = URIError | InvalidCharacterError | RangeError | SyntaxError

definition MAX_HASH_BYTES :: nat where
  "MAX_HASH_BYTES = 4000"

definition OVERHEAD :: nat where
  "OVERHEAD = 120"

subsection \<open>\<^verbatim>\<open>unescape(encodeURIComponent(str))\<close>: UTF-16 to UTF-8\<close>

definition is_lead :: "16 word \<Rightarrow> bool" where
  "is_lead c = (0xD800 \<le> unat c \<and> unat c \<le> 0xDBFF)"

definition is_trail :: "16 word \<Rightarrow> bool" where
  "is_trail c = (0xDC00 \<le> unat c \<and> unat c \<le> 0xDFFF)"

definition pair_value :: "16 word \<Rightarrow> 16 word \<Rightarrow> nat" where
  "pair_value c d = 0x10000 + (unat c - 0xD800) * 0x400 + (unat d - 0xDC00)"

text \<open>
  \<^verbatim>\<open>encodeURIComponent\<close> reads the string code point by code point and throws a
  \<^verbatim>\<open>URIError\<close> at a surrogate that has no partner.
\<close>

fun codePoints :: "utf16 \<Rightarrow> exn + nat list" where
  "codePoints [] = Inr []"
| "codePoints [c] = (if is_lead c \<or> is_trail c then Inl URIError else Inr [unat c])"
| "codePoints (c # d # cs) =
     (if is_lead c then
        (if is_trail d then
           (case codePoints cs of Inl e \<Rightarrow> Inl e | Inr ps \<Rightarrow> Inr (pair_value c d # ps))
         else Inl URIError)
      else if is_trail c then Inl URIError
      else (case codePoints (d # cs) of Inl e \<Rightarrow> Inl e | Inr ps \<Rightarrow> Inr (unat c # ps)))"

definition utf8_octets :: "nat \<Rightarrow> string" where
  "utf8_octets p =
     (if p < 0x80 then [char_of p]
      else if p < 0x800 then [char_of (0xC0 + p div 0x40), char_of (0x80 + p mod 0x40)]
      else if p < 0x10000 then
        [char_of (0xE0 + p div 0x1000), char_of (0x80 + p div 0x40 mod 0x40),
         char_of (0x80 + p mod 0x40)]
      else
        [char_of (0xF0 + p div 0x40000), char_of (0x80 + p div 0x1000 mod 0x40),
         char_of (0x80 + p div 0x40 mod 0x40), char_of (0x80 + p mod 0x40)])"

text \<open>
  \<^verbatim>\<open>encodeURIComponent\<close> writes each octet of the UTF-8 form as an unreserved character or
  as \<^verbatim>\<open>%XX\<close>, and \<^verbatim>\<open>unescape\<close> turns every \<^verbatim>\<open>%XX\<close> back into the character with that
  code: together they give the binary string of the UTF-8 octets.
\<close>

definition unescape_encodeURIComponent :: "utf16 \<Rightarrow> exn + string" where
  "unescape_encodeURIComponent str =
     (case codePoints str of Inl e \<Rightarrow> Inl e | Inr ps \<Rightarrow> Inr (concat (map utf8_octets ps)))"

subsection \<open>\<^verbatim>\<open>decodeURIComponent(escape(str))\<close>: UTF-8 to UTF-16\<close>

definition is_cont :: "char \<Rightarrow> bool" where
  "is_cont b = (0x80 \<le> (of_char b :: nat) \<and> (of_char b :: nat) \<le> 0xBF)"

definition cont_bits :: "char \<Rightarrow> nat" where
  "cont_bits b = of_char b - 0x80"

text \<open>
  \<^verbatim>\<open>decodeURIComponent\<close> throws a \<^verbatim>\<open>URIError\<close> unless the octets are the UTF-8 form of
  code points: no stray continuation octet, no overlong form, no surrogate, nothing
  above U+10FFFF.
\<close>

fun utf8_points :: "string \<Rightarrow> exn + nat list" where
  "utf8_points [] = Inr []"
| "utf8_points (b # bs) =
     (let n = (of_char b :: nat) in
      if n < 0x80 then
        (case utf8_points bs of Inl e \<Rightarrow> Inl e | Inr ps \<Rightarrow> Inr (n # ps))
      else if 0xC0 \<le> n \<and> n < 0xE0 then
        (case bs of
           b1 # r \<Rightarrow>
             (let p = (n - 0xC0) * 0x40 + cont_bits b1 in
              if is_cont b1 \<and> 0x80 \<le> p then
                (case utf8_points r of Inl e \<Rightarrow> Inl e | Inr ps \<Rightarrow> Inr (p # ps))
              else Inl URIError)
         | _ \<Rightarrow> Inl URIError)
      else if 0xE0 \<le> n \<and> n < 0xF0 then
        (case bs of
           b1 # b2 # r \<Rightarrow>
             (let p = (n - 0xE0) * 0x1000 + cont_bits b1 * 0x40 + cont_bits b2 in
              if is_cont b1 \<and> is_cont b2 \<and> 0x800 \<le> p \<and> \<not> (0xD800 \<le> p \<and> p \<le> 0xDFFF) then
                (case utf8_points r of Inl e \<Rightarrow> Inl e | Inr ps \<Rightarrow> Inr (p # ps))
              else Inl URIError)
         | _ \<Rightarrow> Inl URIError)
      else if 0xF0 \<le> n \<and> n < 0xF8 then
        (case bs of
           b1 # b2 # b3 # r \<Rightarrow>
             (let p = (n - 0xF0) * 0x40000 + cont_bits b1 * 0x1000 + cont_bits b2 * 0x40
                        + cont_bits b3 in
              if is_cont b1 \<and> is_cont b2 \<and> is_cont b3 \<and> 0x10000 \<le> p \<and> p \<le> 0x10FFFF then
                (case utf8_points r of Inl e \<Rightarrow> Inl e | Inr ps \<Rightarrow> Inr (p # ps))
              else Inl URIError)
         | _ \<Rightarrow> Inl URIError)
      else Inl URIError)"

definition utf16_units :: "nat \<Rightarrow> utf16" where
  "utf16_units p =
     (if p < 0x10000 then [of_nat p]
      else [of_nat (0xD800 + (p - 0x10000) div 0x400), of_nat (0xDC00 + (p - 0x10000) mod 0x400)])"

definition decodeURIComponent_escape :: "string \<Rightarrow> exn + utf16" where
  "decodeURIComponent_escape bin =
     (case utf8_points bin of Inl e \<Rightarrow> Inl e | Inr ps \<Rightarrow> Inr (concat (map utf16_units ps)))"

subsection \<open>\<^verbatim>\<open>btoa\<close> and \<^verbatim>\<open>atob\<close>\<close>

definition b64char :: "nat \<Rightarrow> char" where
  "b64char n =
     (if n < 26 then char_of (65 + n)
      else if n < 52 then char_of (71 + n)
      else if n < 62 then char_of (n - 4)
      else if n = 62 then CHR ''+'' else CHR ''/'')"

definition b64val :: "char \<Rightarrow> nat option" where
  "b64val c =
     (let k = (of_char c :: nat) in
      if 65 \<le> k \<and> k \<le> 90 then Some (k - 65)
      else if 97 \<le> k \<and> k \<le> 122 then Some (k - 71)
      else if 48 \<le> k \<and> k \<le> 57 then Some (k + 4)
      else if c = CHR ''+'' then Some 62
      else if c = CHR ''/'' then Some 63
      else None)"

fun sextets :: "string \<Rightarrow> nat list" where
  "sextets (a # b # c # r) =
     [of_char a div 4, of_char a mod 4 * 16 + of_char b div 16,
      of_char b mod 16 * 4 + of_char c div 64, of_char c mod 64] @ sextets r"
| "sextets [a, b] =
     [of_char a div 4, of_char a mod 4 * 16 + of_char b div 16, of_char b mod 16 * 4]"
| "sextets [a] = [of_char a div 4, of_char a mod 4 * 16]"
| "sextets [] = []"

text \<open>
  \<^verbatim>\<open>btoa\<close> of a binary string: four characters for every three octets, the last group
  padded with \<^verbatim>\<open>=\<close>. (Its \<^verbatim>\<open>InvalidCharacterError\<close> needs a code unit above 255, which a
  \<^typ>\<open>string\<close> does not have.)
\<close>

definition btoa :: "string \<Rightarrow> string" where
  "btoa bin = map b64char (sextets bin) @ replicate ((3 - length bin mod 3) mod 3) CHR ''=''"

fun octets :: "nat list \<Rightarrow> string" where
  "octets (a # b # c # d # r) =
     [char_of (a * 4 + b div 16), char_of (b mod 16 * 16 + c div 4), char_of (c mod 4 * 64 + d)]
     @ octets r"
| "octets [a, b, c] = [char_of (a * 4 + b div 16), char_of (b mod 16 * 16 + c div 4)]"
| "octets [a, b] = [char_of (a * 4 + b div 16)]"
| "octets [a] = []"
| "octets [] = []"

definition ascii_whitespace :: "char \<Rightarrow> bool" where
  "ascii_whitespace c = ((of_char c :: nat) \<in> {0x09, 0x0A, 0x0C, 0x0D, 0x20})"

definition strip_padding :: "string \<Rightarrow> string" where
  "strip_padding d =
     (if length d mod 4 = 0 \<and> d \<noteq> [] \<and> last d = CHR ''='' then
        (if butlast d \<noteq> [] \<and> last (butlast d) = CHR ''='' then butlast (butlast d)
         else butlast d)
      else d)"

text \<open>
  \<^verbatim>\<open>atob\<close> is the forgiving base64 decoder of the HTML standard: drop ASCII whitespace,
  drop one or two closing \<^verbatim>\<open>=\<close> of a text whose length is a multiple of four, fail on
  a length of \<open>4k + 1\<close> or a character outside the alphabet, decode, and discard the
  bits left over.
\<close>

definition atob :: "string \<Rightarrow> exn + string" where
  "atob str =
     (let d = strip_padding (filter (\<lambda>c. \<not> ascii_whitespace c) str) in
      if length d mod 4 = 1 then Inl InvalidCharacterError
      else (case those (map b64val d) of
              None \<Rightarrow> Inl InvalidCharacterError
            | Some vs \<Rightarrow> Inr (octets vs)))"

subsection \<open>\<^verbatim>\<open>encodeBase64\<close>, \<^verbatim>\<open>decodeBase64\<close>, \<^verbatim>\<open>chunkString\<close>\<close>

definition replace_all :: "char \<Rightarrow> char \<Rightarrow> string \<Rightarrow> string" where
  "replace_all a b str = map (\<lambda>c. if c = a then b else c) str"

definition strip_trailing_eq :: "string \<Rightarrow> string" where
  "strip_trailing_eq str = rev (dropWhile (\<lambda>c. c = CHR ''='') (rev str))"

definition encodeBase64 :: "utf16 \<Rightarrow> exn + string" where
  "encodeBase64 str =
     (case unescape_encodeURIComponent str of
        Inl e \<Rightarrow> Inl e
      | Inr bin \<Rightarrow>
          Inr (strip_trailing_eq (replace_all CHR ''/'' CHR ''_'' (replace_all CHR ''+'' CHR ''-'' (btoa bin)))))"

text \<open>The loop \<^verbatim>\<open>while (str.length % 4) str += '='\<close>.\<close>

function pad4 :: "string \<Rightarrow> string" where
  "pad4 str = (if length str mod 4 \<noteq> 0 then pad4 (str @ ''='') else str)"
  by pat_completeness auto
termination
proof (relation "measure (\<lambda>str. (4 - length str mod 4) mod 4)")
  show "wf (measure (\<lambda>str::string. (4 - length str mod 4) mod 4))"
    by (rule wf_measure)
next
  fix str :: string
  assume a: "length str mod 4 \<noteq> 0"
  have "length str mod 4 < 4" by simp
  with a consider "length str mod 4 = 1" | "length str mod 4 = 2" | "length str mod 4 = 3"
    by linarith
  then have "(4 - Suc (length str) mod 4) mod 4 < (4 - length str mod 4) mod 4"
    by cases (simp_all add: mod_Suc)
  then show "(str @ ''='', str) \<in> measure (\<lambda>str. (4 - length str mod 4) mod 4)"
    by simp
qed

definition decodeBase64 :: "string \<Rightarrow> exn + utf16" where
  "decodeBase64 str =
     (case atob (pad4 (replace_all CHR ''_'' CHR ''/'' (replace_all CHR ''-'' CHR ''+'' str))) of
        Inl e \<Rightarrow> Inl e
      | Inr bin \<Rightarrow> decodeURIComponent_escape bin)"

text \<open>\<^verbatim>\<open>str.slice(a, b)\<close> for \<open>0 \<le> a \<le> b\<close>.\<close>

definition slice :: "string \<Rightarrow> nat \<Rightarrow> nat \<Rightarrow> string" where
  "slice str a b = drop a (take b str)"

text \<open>
  \<^verbatim>\<open>chunkString\<close>: the loop \<^verbatim>\<open>for (let i = 0; i < str.length; i += size)\<close> does not end when
  \<^verbatim>\<open>size\<close> is 0 and the string is not empty, so not returning is the value \<open>None\<close>.
\<close>

partial_function (option) chunkString_loop ::
  "string \<Rightarrow> nat \<Rightarrow> nat \<Rightarrow> string list \<Rightarrow> string list option" where
  "chunkString_loop str sz i out =
     (if i < length str
      then chunkString_loop str sz (i + sz) (out @ [slice str i (i + sz)])
      else Some out)"

declare chunkString_loop.simps [code]

definition chunkString :: "string \<Rightarrow> nat \<Rightarrow> string list option" where
  "chunkString str sz = chunkString_loop str sz 0 []"

text \<open>\<^verbatim>\<open>buffer.join('')\<close> of an array of strings without holes.\<close>

definition join :: "string list \<Rightarrow> string" where
  "join chunks = concat chunks"


section \<open>Frames\<close>

text \<open>
  Numbers in a template literal: \<^verbatim>\<open>`${index}`\<close>. The numbers of the protocol are
  integers or \<^verbatim>\<open>NaN\<close> (what \<^verbatim>\<open>parseInt\<close> returns); \<open>None\<close> is \<^verbatim>\<open>NaN\<close>. An integer
  prints as its decimal digits, which is what JavaScript prints below \<open>2\<^sup>5\<^sup>3\<close>.
\<close>

type_synonym jsnum = "int option"

fun show_nat :: "nat \<Rightarrow> string" where
  "show_nat n =
     (if n < 10 then [char_of (48 + n)] else show_nat (n div 10) @ [char_of (48 + n mod 10)])"

definition show_int :: "int \<Rightarrow> string" where
  "show_int i = (if i < 0 then CHR ''-'' # show_nat (nat (- i)) else show_nat (nat i))"

definition show_num :: "jsnum \<Rightarrow> string" where
  "show_num x = (case x of None \<Rightarrow> ''NaN'' | Some i \<Rightarrow> show_int i)"

definition startsWith :: "string \<Rightarrow> string \<Rightarrow> bool" where
  "startsWith str p = (take (length p) str = p)"

text \<open>\<^verbatim>\<open>parseInt(str, 10)\<close>: white space, a sign, then the longest run of digits.\<close>

definition white_space :: "char \<Rightarrow> bool" where
  "white_space c = ((of_char c :: nat) \<in> {0x09, 0x0A, 0x0B, 0x0C, 0x0D, 0x20, 0xA0})"

definition is_digit :: "char \<Rightarrow> bool" where
  "is_digit c = (48 \<le> (of_char c :: nat) \<and> (of_char c :: nat) \<le> 57)"

definition digits_value :: "string \<Rightarrow> nat" where
  "digits_value ds = foldl (\<lambda>a c. 10 * a + (of_char c - 48)) 0 ds"

definition parseInt :: "string \<Rightarrow> jsnum" where
  "parseInt str =
     (let t = dropWhile white_space str;
          neg = (t \<noteq> [] \<and> hd t = CHR ''-'');
          u = (if t \<noteq> [] \<and> (hd t = CHR ''-'' \<or> hd t = CHR ''+'') then tl t else t);
          ds = takeWhile is_digit u
      in if ds = [] then None
         else Some (if neg then - int (digits_value ds) else int (digits_value ds)))"

text \<open>
  \<^verbatim>\<open>const [indexStr, totalStr] = seq.split('/')\<close>: the text before the first slash and
  the text between the first and the second; \<^verbatim>\<open>totalStr\<close> is \<^verbatim>\<open>undefined\<close> without a
  slash, and \<^verbatim>\<open>parseInt(undefined, 10)\<close> is \<^verbatim>\<open>NaN\<close>.
\<close>

definition not_slash :: "char \<Rightarrow> bool" where
  "not_slash c = (c \<noteq> CHR ''/'')"

definition split_seq :: "string \<Rightarrow> string \<times> string option" where
  "split_seq sq =
     (let r = dropWhile not_slash sq
      in (takeWhile not_slash sq, if r = [] then None else Some (takeWhile not_slash (tl r))))"

definition parse_seq :: "string \<Rightarrow> jsnum \<times> jsnum" where
  "parse_seq sq =
     (case split_seq sq of
        (indexStr, totalStr) \<Rightarrow>
          (parseInt indexStr, case totalStr of None \<Rightarrow> None | Some t \<Rightarrow> parseInt t))"

text \<open>
  The pieces of the two regular expressions. \<^verbatim>\<open>([^:]+):\<close> is the text up to the next
  colon, not empty; \<^verbatim>\<open>(REQ|RES):\<close> is one of the two words; \<^verbatim>\<open>(.+)$\<close> is the rest, not
  empty and free of line terminators.
\<close>

definition not_colon :: "char \<Rightarrow> bool" where
  "not_colon c = (c \<noteq> CHR '':'')"

definition segment :: "string \<Rightarrow> (string \<times> string) option" where
  "segment str =
     (let a = takeWhile not_colon str; r = dropWhile not_colon str
      in if a = [] \<or> r = [] then None else Some (a, tl r))"

definition req_or_res :: "string \<Rightarrow> (string \<times> string) option" where
  "req_or_res str =
     (if startsWith str ''REQ:'' then Some (''REQ'', drop 4 str)
      else if startsWith str ''RES:'' then Some (''RES'', drop 4 str)
      else None)"

definition line_terminator :: "char \<Rightarrow> bool" where
  "line_terminator c = ((of_char c :: nat) = 0x0A \<or> (of_char c :: nat) = 0x0D)"

definition rest_of_line :: "string \<Rightarrow> string option" where
  "rest_of_line str = (if str \<noteq> [] \<and> \<not> list_ex line_terminator str then Some str else None)"

text \<open>The background side: \<^verbatim>\<open>/^MSG:(REQ|RES):([^:]+):([^:]+):(.+)$/\<close>.\<close>

definition match_msg :: "string \<Rightarrow> (string \<times> string \<times> string \<times> string) option" where
  "match_msg h =
     (if \<not> startsWith h ''MSG:'' then None
      else case req_or_res (drop 4 h) of
        None \<Rightarrow> None
      | Some (type, r1) \<Rightarrow>
          (case segment r1 of
             None \<Rightarrow> None
           | Some (ident, r2) \<Rightarrow>
               (case segment r2 of
                  None \<Rightarrow> None
                | Some (sq, r3) \<Rightarrow>
                    (case rest_of_line r3 of
                       None \<Rightarrow> None
                     | Some data \<Rightarrow> Some (type, ident, sq, data)))))"

text \<open>The content side: \<^verbatim>\<open>/^MSG:([^:]+):(REQ|RES):([^:]+):([^:]+):(.+)$/\<close>.\<close>

definition match_secret_msg ::
  "string \<Rightarrow> (string \<times> string \<times> string \<times> string \<times> string) option" where
  "match_secret_msg h =
     (if \<not> startsWith h ''MSG:'' then None
      else case segment (drop 4 h) of
        None \<Rightarrow> None
      | Some (sec, r0) \<Rightarrow>
          (case req_or_res r0 of
             None \<Rightarrow> None
           | Some (type, r1) \<Rightarrow>
               (case segment r1 of
                  None \<Rightarrow> None
                | Some (ident, r2) \<Rightarrow>
                    (case segment r2 of
                       None \<Rightarrow> None
                     | Some (sq, r3) \<Rightarrow>
                         (case rest_of_line r3 of
                            None \<Rightarrow> None
                          | Some data \<Rightarrow> Some (sec, type, ident, sq, data))))))"

subsection \<open>The reassembly buffer: a JavaScript array with holes\<close>

text \<open>
  \<^verbatim>\<open>new Array(total)\<close> has \<^verbatim>\<open>total\<close> holes and throws a \<^verbatim>\<open>RangeError\<close> unless \<^verbatim>\<open>total\<close> is
  an integer from 0 to \<open>2\<^sup>3\<^sup>2 - 1\<close>. \<^verbatim>\<open>buffer[index] = data\<close> stores an element when
  \<^verbatim>\<open>index\<close> is an array index (0 to \<open>2\<^sup>3\<^sup>2 - 2\<close>), growing the array when it is past the
  end; any other \<^verbatim>\<open>index\<close> only sets a property that \<^verbatim>\<open>filter\<close> and \<^verbatim>\<open>join\<close> never see.
\<close>

type_synonym jsarray = "string option list"

definition new_Array :: "jsnum \<Rightarrow> exn + jsarray" where
  "new_Array tot =
     (case tot of
        None \<Rightarrow> Inl RangeError
      | Some n \<Rightarrow> if 0 \<le> n \<and> n < 2 ^ 32 then Inr (replicate (nat n) None) else Inl RangeError)"

definition array_set :: "jsarray \<Rightarrow> jsnum \<Rightarrow> string \<Rightarrow> jsarray" where
  "array_set buffer index data =
     (case index of
        None \<Rightarrow> buffer
      | Some i \<Rightarrow>
          if 0 \<le> i \<and> i < 2 ^ 32 - 1 then
            (if nat i < length buffer then buffer[nat i := Some data]
             else buffer @ replicate (nat i - length buffer) None @ [Some data])
          else buffer)"

text \<open>\<^verbatim>\<open>buffer.filter(v => v !== undefined).length\<close> and \<^verbatim>\<open>buffer.join('')\<close>.\<close>

definition filled :: "jsarray \<Rightarrow> nat" where
  "filled buffer = length (filter (\<lambda>v. v \<noteq> None) buffer)"

definition join_array :: "jsarray \<Rightarrow> string" where
  "join_array buffer = join (map (\<lambda>v. case v of None \<Rightarrow> [] | Some x \<Rightarrow> x) buffer)"

definition is_complete :: "jsarray \<Rightarrow> jsnum \<Rightarrow> bool" where
  "is_complete buffer tot = (tot = Some (int (filled buffer)))"

subsection \<open>What the platform gives\<close>

text \<open>
  \<^verbatim>\<open>JSON.stringify\<close> and \<^verbatim>\<open>JSON.parse\<close> on the messages \<open>'m\<close> (a failed parse, a
  \<^verbatim>\<open>SyntaxError\<close>, is \<open>None\<close>), and the identifiers that successive calls of
  \<^verbatim>\<open>crypto.randomUUID()\<close> return.
\<close>

record 'm platform =
  JSON_stringify :: "'m \<Rightarrow> utf16"
  JSON_parse :: "utf16 \<Rightarrow> 'm option"
  randomUUID :: "nat \<Rightarrow> string"

definition ascii :: "string \<Rightarrow> utf16" where
  "ascii str = map (\<lambda>c. of_nat (of_char c)) str"

text \<open>
  \<^verbatim>\<open>JSON.stringify(data)\<close> where \<^verbatim>\<open>data\<close> may be \<^verbatim>\<open>undefined\<close> (\<open>None\<close>): the result is
  then \<^verbatim>\<open>undefined\<close>, which \<^verbatim>\<open>encodeURIComponent\<close> reads as the text \<^verbatim>\<open>undefined\<close>.
\<close>

definition stringify :: "'m platform \<Rightarrow> 'm option \<Rightarrow> utf16" where
  "stringify P data = (case data of None \<Rightarrow> ascii ''undefined'' | Some m \<Rightarrow> JSON_stringify P m)"

definition parse_payload :: "'m platform \<Rightarrow> string \<Rightarrow> exn + 'm" where
  "parse_payload P full =
     (case decodeBase64 full of
        Inl e \<Rightarrow> Inl e
      | Inr text \<Rightarrow> (case JSON_parse P text of None \<Rightarrow> Inl SyntaxError | Some m \<Rightarrow> Inr m))"

text \<open>
  The first lines of \<^verbatim>\<open>sendChunks\<close>: the chunks of the encoded payload. The loop of
  \<^verbatim>\<open>chunkString\<close> returns for the chunk size used here.
\<close>

definition chunkSize :: nat where
  "chunkSize = MAX_HASH_BYTES - OVERHEAD"

definition encode_chunks :: "'m platform \<Rightarrow> 'm option \<Rightarrow> exn + string list option" where
  "encode_chunks P data =
     (case encodeBase64 (stringify P data) of
        Inl e \<Rightarrow> Inl e
      | Inr base64 \<Rightarrow> Inr (chunkString base64 chunkSize))"

definition chunk_text :: "string list \<Rightarrow> nat \<Rightarrow> string" where
  "chunk_text chunks index = (if index < length chunks then chunks ! index else ''undefined'')"

section \<open>The background side: \<^verbatim>\<open>hash-messaging-bg.js\<close>\<close>

text \<open>
  The module's variables and what its closures hold make up the state; every call of
  the browser (\<^verbatim>\<open>tabs.update\<close>, \<^verbatim>\<open>setTimeout\<close>, \<^verbatim>\<open>tabs.get\<close>) and every call of a
  promise's \<^verbatim>\<open>resolve\<close> or \<^verbatim>\<open>reject\<close> is recorded in it. The browser's events are the steps:
  a tab's URL changed, a timer fired, a \<^verbatim>\<open>tabs.get\<close> answered, a promise of a handler was
  settled.
\<close>

type_synonym tabId = nat

text \<open>
  A URL as \<^verbatim>\<open>new URL(...)\<close> presents it: \<^verbatim>\<open>url.origin + url.pathname + url.search\<close>, and
  \<^verbatim>\<open>url.hash\<close> (empty, or \<^verbatim>\<open>#\<close> and the fragment).
\<close>

record url =
  url_base :: string
  url_hash :: string

text \<open>
  The promise that \<^verbatim>\<open>sendMessage\<close> returns is known by its number, in the order of the
  calls (\<open>calls\<close> below lists the tab of each call so far). \<^verbatim>\<open>Rejected_Timeout\<close> is \<^verbatim>\<open>reject(new Error('Timeout'))\<close>; \<^verbatim>\<open>Rejected e\<close> is the
  rejection of a promise whose executor threw \<open>e\<close>.
\<close>

datatype 'm settlement = Resolved 'm | Rejected_Timeout | Rejected exn

record 'm tab_state =
  queue :: "('m \<times> nat) list"
  isSending :: bool

text \<open>The closure stored in \<^verbatim>\<open>pendingRequests\<close>: its \<^verbatim>\<open>resolve\<close> and its tab's state.\<close>

record resolver =
  r_caller :: nat
  r_tab :: tabId

text \<open>The closure given to \<^verbatim>\<open>setTimeout\<close>, its delay, and whether it has run.\<close>

record timer =
  t_id :: string
  t_caller :: nat
  t_tab :: tabId
  t_delay :: nat
  t_fired :: bool

text \<open>
  The variables of one call of \<^verbatim>\<open>sendChunks\<close>: \<open>s_listening\<close> while its \<^verbatim>\<open>onUpdated\<close> is a
  listener, \<open>s_get_pending\<close> until the callback of \<^verbatim>\<open>browser.tabs.get\<close> has run.
\<close>

record sender =
  s_tab :: tabId
  s_type :: string
  s_id :: string
  s_chunks :: "string list"
  s_total :: nat
  s_index :: nat
  s_listening :: bool
  s_get_pending :: bool

text \<open>
  What a handler does with a message: return \<^verbatim>\<open>undefined\<close> (\<open>Absent\<close>); throw, or return
  a promise that is already rejected (\<open>Fails\<close>); return a value that is not a promise, or
  a promise that is already fulfilled, so that \<^verbatim>\<open>await response\<close> gives \<open>v\<close> in a microtask,
  before any other event is handled (\<open>Present v\<close>, with \<open>None\<close> for a promise fulfilled
  with \<^verbatim>\<open>undefined\<close>); or return a promise that is settled by a later task, if ever
  (\<open>Later p\<close>): \<open>p\<close> tells whether it is then fulfilled, and with what, or rejected, or
  never settled.
\<close>

datatype 'm promise = Fulfils "'m option" | Rejects | Never

datatype 'm hresult = Absent | Present "'m option" | Fails | Later "'m promise"

text \<open>
  Where a call of the \<^verbatim>\<open>async\<close> function \<^verbatim>\<open>dispatchRequest\<close> stands: at
  \<^verbatim>\<open>await browser.tabs.get(tabId)\<close> (\<open>Waiting\<close>), executing (\<open>Running\<close>, only inside a step), at
  \<^verbatim>\<open>await response\<close> for a promise of a handler (\<open>Awaiting p\<close>), or over, after the loop
  (\<open>Returned\<close>) or by an exception (\<open>Threw\<close>).
\<close>

datatype 'm dstatus = Waiting | Running | Awaiting "'m promise" | Returned | Threw

text \<open>
  The variables of one call of \<^verbatim>\<open>dispatchRequest\<close>: \<open>d_context\<close> is \<^verbatim>\<open>tab\<close> once
  \<^verbatim>\<open>browser.tabs.get\<close> has answered, \<open>d_next\<close> the position of the iterator of the
  \<^verbatim>\<open>for...of\<close> loop (the number of handlers called so far), \<open>d_responded\<close> the variable
  \<^verbatim>\<open>responded\<close>. \<open>d_sent\<close> lists the calls of \<^verbatim>\<open>sendChunks\<close> that its \<^verbatim>\<open>sendResponse\<close> made, each
  by the position of the sender it created.
\<close>

record ('m, 't) dispatch =
  d_tab :: tabId
  d_id :: string
  d_message :: 'm
  d_context :: "'t option"
  d_next :: nat
  d_responded :: bool
  d_status :: "'m dstatus"
  d_sent :: "nat list"

record ('m, 't) bg_state =
  pendingRequests :: "string \<rightharpoonup> resolver"
  incomingBuffers :: "string \<rightharpoonup> jsarray"
  messageHandlers :: "('m \<Rightarrow> 't \<Rightarrow> 'm hresult) list"
  tabState :: "tabId \<rightharpoonup> 'm tab_state"
  senders :: "sender list"
  timers :: "timer list"
  dispatches :: "('m, 't) dispatch list"
  tab_updates :: "(tabId \<times> string) list"
  settlements :: "(nat \<times> 'm settlement) list"
  calls :: "tabId list"
  uuid_calls :: nat
  invocations :: "(nat \<times> nat \<times> 'm \<times> 't) list"
  uncaught :: "exn list"

definition bg_init :: "('m, 't) bg_state" where
  "bg_init =
     \<lparr>pendingRequests = Map.empty, incomingBuffers = Map.empty, messageHandlers = [],
      tabState = Map.empty, senders = [], timers = [], dispatches = [], tab_updates = [],
      settlements = [], calls = [], uuid_calls = 0, invocations = [], uncaught = []\<rparr>"

definition ensureTabState :: "tabId \<Rightarrow> ('m, 't) bg_state \<Rightarrow> ('m, 't) bg_state" where
  "ensureTabState tabId st =
     (if tabState st tabId = None
      then st\<lparr>tabState := (tabState st)(tabId \<mapsto> \<lparr>queue = [], isSending = False\<rparr>)\<rparr>
      else st)"

text \<open>The object \<^verbatim>\<open>tabState.get(tabId)\<close>, and assignments to its two fields.\<close>

definition tab_of :: "('m, 't) bg_state \<Rightarrow> tabId \<Rightarrow> 'm tab_state" where
  "tab_of st tabId =
     (case tabState st tabId of None \<Rightarrow> \<lparr>queue = [], isSending = False\<rparr> | Some ts \<Rightarrow> ts)"

definition set_isSending :: "tabId \<Rightarrow> bool \<Rightarrow> ('m, 't) bg_state \<Rightarrow> ('m, 't) bg_state" where
  "set_isSending tabId b st =
     st\<lparr>tabState := (tabState st)(tabId \<mapsto> (tab_of st tabId)\<lparr>isSending := b\<rparr>)\<rparr>"

definition set_queue ::
  "tabId \<Rightarrow> ('m \<times> nat) list \<Rightarrow> ('m, 't) bg_state \<Rightarrow> ('m, 't) bg_state" where
  "set_queue tabId q st =
     st\<lparr>tabState := (tabState st)(tabId \<mapsto> (tab_of st tabId)\<lparr>queue := q\<rparr>)\<rparr>"

definition updateTabHash ::
  "tabId \<Rightarrow> string \<Rightarrow> string \<Rightarrow> ('m, 't) bg_state \<Rightarrow> ('m, 't) bg_state" where
  "updateTabHash tabId baseUrl payload st =
     st\<lparr>tab_updates := tab_updates st @ [(tabId, baseUrl @ ''#'' @ payload)]\<rparr>"

text \<open>The text \<^verbatim>\<open>${type}:${id}:${index}/${total}:${chunks[index]}\<close> that ends a \<^verbatim>\<open>MSG\<close> frame.\<close>

definition frame_body :: "string \<Rightarrow> string \<Rightarrow> nat \<Rightarrow> nat \<Rightarrow> string \<Rightarrow> string" where
  "frame_body type ident idx tot chunk =
     type @ '':'' @ ident @ '':'' @ show_nat idx @ ''/'' @ show_nat tot @ '':'' @ chunk"

definition msg_frame :: "string \<Rightarrow> string \<Rightarrow> nat \<Rightarrow> nat \<Rightarrow> string \<Rightarrow> string" where
  "msg_frame type ident idx tot chunk = ''MSG:'' @ frame_body type ident idx tot chunk"

definition ack_frame :: "string \<Rightarrow> jsnum \<Rightarrow> string" where
  "ack_frame ident idx = ''ACK:'' @ ident @ '':'' @ show_num idx"

text \<open>
  \<^verbatim>\<open>sendNext\<close> of a sender: the URL it hands to \<^verbatim>\<open>tabs.update\<close>, and the sender with
  \<^verbatim>\<open>index++\<close> done.
\<close>

definition sendNext_payload :: "sender \<Rightarrow> string" where
  "sendNext_payload s =
     msg_frame (s_type s) (s_id s) (s_index s) (s_total s) (chunk_text (s_chunks s) (s_index s))"

definition sendNext :: "nat \<Rightarrow> string \<Rightarrow> ('m, 't) bg_state \<Rightarrow> ('m, 't) bg_state" where
  "sendNext k baseUrl st =
     (let s = senders st ! k;
          st1 = updateTabHash (s_tab s) baseUrl (sendNext_payload s) st
      in st1\<lparr>senders := (senders st1)[k := s\<lparr>s_index := s_index s + 1\<rparr>]\<rparr>)"

text \<open>The listener \<^verbatim>\<open>onUpdated\<close> of sender \<open>k\<close>, called with a tab and its \<^verbatim>\<open>info.url\<close>.\<close>

definition expected_ack :: "sender \<Rightarrow> string" where
  "expected_ack s = ack_frame (s_id s) (Some (int (s_index s) - 1))"

definition onUpdated ::
  "nat \<Rightarrow> tabId \<Rightarrow> url option \<Rightarrow> ('m, 't) bg_state \<Rightarrow> ('m, 't) bg_state" where
  "onUpdated k updatedTabId info_url st =
     (let s = senders st ! k in
      case info_url of
        None \<Rightarrow> st
      | Some u \<Rightarrow>
          if updatedTabId \<noteq> s_tab s then st
          else if drop 1 (url_hash u) = expected_ack s then
            (if s_index s < s_total s then sendNext k (url_base u) st
             else st\<lparr>senders := (senders st)[k := s\<lparr>s_listening := False\<rparr>]\<rparr>)
          else st)"

text \<open>
  \<^verbatim>\<open>sendChunks\<close> up to its return: the new sender listens, and its first chunk waits for
  the callback of \<^verbatim>\<open>browser.tabs.get\<close>. The result is the exception thrown, if any, and
  the state; \<open>None\<close> inside \<open>encode_chunks\<close> (a loop that does not return) leaves the
  state as it is.
\<close>

definition sendChunks ::
  "'m platform \<Rightarrow> tabId \<Rightarrow> string \<Rightarrow> string \<Rightarrow> 'm option \<Rightarrow> ('m, 't) bg_state
     \<Rightarrow> exn option \<times> ('m, 't) bg_state" where
  "sendChunks P tabId type ident data st =
     (case encode_chunks P data of
        Inl e \<Rightarrow> (Some e, st)
      | Inr None \<Rightarrow> (None, st)
      | Inr (Some chunks) \<Rightarrow>
          (None,
           st\<lparr>senders := senders st @
                 [\<lparr>s_tab = tabId, s_type = type, s_id = ident, s_chunks = chunks,
                   s_total = length chunks, s_index = 0, s_listening = True,
                   s_get_pending = True\<rparr>]\<rparr>))"

text \<open>The callback of \<^verbatim>\<open>browser.tabs.get\<close> in \<^verbatim>\<open>sendChunks\<close>, for sender \<open>k\<close>.\<close>

definition tabs_get_callback :: "nat \<Rightarrow> url \<Rightarrow> ('m, 't) bg_state \<Rightarrow> ('m, 't) bg_state" where
  "tabs_get_callback k u st =
     (if k < length (senders st) \<and> s_get_pending (senders st ! k) then
        sendNext k (url_base u)
          (st\<lparr>senders := (senders st)[k := (senders st ! k)\<lparr>s_get_pending := False\<rparr>]\<rparr>)
      else st)"

definition processQueue ::
  "'m platform \<Rightarrow> tabId \<Rightarrow> ('m, 't) bg_state \<Rightarrow> exn option \<times> ('m, 't) bg_state" where
  "processQueue P tabId st0 =
     (let st = ensureTabState tabId st0 in
      if isSending (tab_of st tabId) then (None, st)
      else if queue (tab_of st tabId) = [] then (None, st)
      else
        (let st1 = set_isSending tabId True st;
             message = fst (hd (queue (tab_of st1 tabId)));
             caller = snd (hd (queue (tab_of st1 tabId)));
             st2 = set_queue tabId (tl (queue (tab_of st1 tabId))) st1;
             ident = randomUUID P (uuid_calls st2);
             st3 = st2\<lparr>uuid_calls := uuid_calls st2 + 1\<rparr>;
             st4 = st3\<lparr>pendingRequests :=
                        (pendingRequests st3)(ident \<mapsto> \<lparr>r_caller = caller, r_tab = tabId\<rparr>)\<rparr>
         in case sendChunks P tabId ''REQ'' ident (Some message) st4 of
              (Some e, st5) \<Rightarrow> (Some e, st5)
            | (None, st5) \<Rightarrow>
                (None,
                 st5\<lparr>timers := timers st5 @
                       [\<lparr>t_id = ident, t_caller = caller, t_tab = tabId, t_delay = 30000,
                         t_fired = False\<rparr>]\<rparr>)))"

text \<open>
  The closure stored in \<^verbatim>\<open>pendingRequests\<close>:
  \<^verbatim>\<open>result => { resolve(result); state.isSending = false; processQueue(tabId); }\<close>.
\<close>

definition settle :: "nat \<Rightarrow> 'm settlement \<Rightarrow> ('m, 't) bg_state \<Rightarrow> ('m, 't) bg_state" where
  "settle caller outcome st = st\<lparr>settlements := settlements st @ [(caller, outcome)]\<rparr>"

definition run_resolver ::
  "'m platform \<Rightarrow> resolver \<Rightarrow> 'm \<Rightarrow> ('m, 't) bg_state \<Rightarrow> exn option \<times> ('m, 't) bg_state" where
  "run_resolver P r result st =
     processQueue P (r_tab r) (set_isSending (r_tab r) False (settle (r_caller r) (Resolved result) st))"

text \<open>The closure given to \<^verbatim>\<open>setTimeout\<close>.\<close>

definition timeout_callback ::
  "'m platform \<Rightarrow> timer \<Rightarrow> ('m, 't) bg_state \<Rightarrow> exn option \<times> ('m, 't) bg_state" where
  "timeout_callback P t st =
     (if pendingRequests st (t_id t) \<noteq> None then
        processQueue P (t_tab t)
          (set_isSending (t_tab t) False
             (settle (t_caller t) Rejected_Timeout
                (st\<lparr>pendingRequests := (pendingRequests st)(t_id t := None)\<rparr>)))
      else (None, st))"

text \<open>
  \<^verbatim>\<open>sendMessage\<close>: the executor of the new promise pushes the entry and calls
  \<^verbatim>\<open>processQueue\<close>; an exception thrown there rejects the promise.
\<close>

definition sendMessage ::
  "'m platform \<Rightarrow> tabId \<Rightarrow> 'm \<Rightarrow> ('m, 't) bg_state \<Rightarrow> ('m, 't) bg_state" where
  "sendMessage P tabId message st0 =
     (let st = ensureTabState tabId st0;
          caller = length (calls st);
          st1 = st\<lparr>calls := calls st @ [tabId]\<rparr>;
          st2 = set_queue tabId (queue (tab_of st1 tabId) @ [(message, caller)]) st1
      in case processQueue P tabId st2 of
           (None, st3) \<Rightarrow> st3
         | (Some e, st3) \<Rightarrow> settle caller (Rejected e) st3)"

definition onMessage ::
  "('m \<Rightarrow> 't \<Rightarrow> 'm hresult) \<Rightarrow> ('m, 't) bg_state \<Rightarrow> ('m, 't) bg_state" where
  "onMessage handler st = st\<lparr>messageHandlers := messageHandlers st @ [handler]\<rparr>"

text \<open>
  \<^verbatim>\<open>dispatchRequest\<close> up to its first \<^verbatim>\<open>await\<close>: a new call, waiting for
  \<^verbatim>\<open>browser.tabs.get\<close>. An exception inside the \<^verbatim>\<open>async\<close> function rejects its promise and
  reaches no caller.
\<close>

definition dispatchRequest ::
  "tabId \<Rightarrow> string \<Rightarrow> 'm \<Rightarrow> ('m, 't) bg_state \<Rightarrow> ('m, 't) bg_state" where
  "dispatchRequest tabId ident message st =
     st\<lparr>dispatches := dispatches st @
           [\<lparr>d_tab = tabId, d_id = ident, d_message = message, d_context = None, d_next = 0,
             d_responded = False, d_status = Waiting, d_sent = []\<rparr>]\<rparr>"

definition set_dispatch ::
  "nat \<Rightarrow> (('m, 't) dispatch \<Rightarrow> ('m, 't) dispatch) \<Rightarrow> ('m, 't) bg_state \<Rightarrow> ('m, 't) bg_state" where
  "set_dispatch k f st = st\<lparr>dispatches := (dispatches st)[k := f (dispatches st ! k)]\<rparr>"

text \<open>\<^verbatim>\<open>sendResponse(response)\<close> of call \<open>k\<close>.\<close>

definition sendResponse ::
  "'m platform \<Rightarrow> nat \<Rightarrow> 'm option \<Rightarrow> ('m, 't) bg_state \<Rightarrow> exn option \<times> ('m, 't) bg_state" where
  "sendResponse P k response st =
     (let d = dispatches st ! k in
      if d_responded d then (None, st)
      else
        (let st1 = set_dispatch k (\<lambda>d. d\<lparr>d_responded := True\<rparr>) st in
         case sendChunks P (d_tab d) ''RES'' (d_id d) response st1 of
           (Some e, st2) \<Rightarrow> (Some e, st2)
         | (None, st2) \<Rightarrow>
             (None, set_dispatch k (\<lambda>d. d\<lparr>d_sent := d_sent d @ [length (senders st1)]\<rparr>) st2)))"

text \<open>
  The loop \<^verbatim>\<open>for (const handler of messageHandlers)\<close> of call \<open>k\<close>, from the iterator's
  position, over the handlers \<open>hs\<close> that are left, until the function returns, throws, or
  stops at \<^verbatim>\<open>await response\<close> for a promise that is not settled yet. \<^verbatim>\<open>await\<close> comes before
  the call of \<^verbatim>\<open>sendResponse\<close>, whatever \<^verbatim>\<open>responded\<close> is.
\<close>

fun handlers_loop ::
  "'m platform \<Rightarrow> nat \<Rightarrow> 't \<Rightarrow> ('m \<Rightarrow> 't \<Rightarrow> 'm hresult) list \<Rightarrow> ('m, 't) bg_state
     \<Rightarrow> ('m, 't) bg_state" where
  "handlers_loop P k tab [] st = set_dispatch k (\<lambda>d. d\<lparr>d_status := Returned\<rparr>) st"
| "handlers_loop P k tab (handler # hs) st =
     (let d = dispatches st ! k;
          st1 = set_dispatch k (\<lambda>d. d\<lparr>d_next := d_next d + 1\<rparr>)
                  (st\<lparr>invocations := invocations st @ [(k, d_next d, d_message d, tab)]\<rparr>)
      in case handler (d_message d) tab of
        Absent \<Rightarrow> handlers_loop P k tab hs st1
      | Present response \<Rightarrow>
          (case sendResponse P k response st1 of
             (Some e, st2) \<Rightarrow> set_dispatch k (\<lambda>d. d\<lparr>d_status := Threw\<rparr>) st2
           | (None, st2) \<Rightarrow> handlers_loop P k tab hs st2)
      | Fails \<Rightarrow> set_dispatch k (\<lambda>d. d\<lparr>d_status := Threw\<rparr>) st1
      | Later p \<Rightarrow> set_dispatch k (\<lambda>d. d\<lparr>d_status := Awaiting p\<rparr>) st1)"

text \<open>
  \<^verbatim>\<open>browser.tabs.get\<close> answers call \<open>k\<close>, with the tab or with a rejection (\<open>None\<close>), and the
  loop starts.
\<close>

definition dispatch_resume ::
  "'m platform \<Rightarrow> nat \<Rightarrow> 't option \<Rightarrow> ('m, 't) bg_state \<Rightarrow> ('m, 't) bg_state" where
  "dispatch_resume P k answer st =
     (if k < length (dispatches st) \<and> d_status (dispatches st ! k) = Waiting then
        (case answer of
           None \<Rightarrow> set_dispatch k (\<lambda>d. d\<lparr>d_status := Threw\<rparr>) st
         | Some tab \<Rightarrow>
             handlers_loop P k tab (messageHandlers st)
               (set_dispatch k (\<lambda>d. d\<lparr>d_context := Some tab, d_status := Running\<rparr>) st))
      else st)"

text \<open>
  The promise that call \<open>k\<close> awaits is settled: \<^verbatim>\<open>sendResponse\<close> gets the value and the loop
  goes on with the handlers registered by now, or the rejection ends the call. A promise
  that is never settled leaves the call where it is.
\<close>

definition promise_settles :: "'m platform \<Rightarrow> nat \<Rightarrow> ('m, 't) bg_state \<Rightarrow> ('m, 't) bg_state" where
  "promise_settles P k st =
     (if k < length (dispatches st) then
        (let d = dispatches st ! k in
         case d_status d of
           Awaiting p \<Rightarrow>
             (case p of
                Fulfils response \<Rightarrow>
                  (case d_context d of
                     None \<Rightarrow> st
                   | Some tab \<Rightarrow>
                       (case sendResponse P k response
                               (set_dispatch k (\<lambda>d. d\<lparr>d_status := Running\<rparr>) st) of
                          (Some e, st2) \<Rightarrow> set_dispatch k (\<lambda>d. d\<lparr>d_status := Threw\<rparr>) st2
                        | (None, st2) \<Rightarrow>
                            handlers_loop P k tab (drop (d_next d) (messageHandlers st2)) st2))
              | Rejects \<Rightarrow> set_dispatch k (\<lambda>d. d\<lparr>d_status := Threw\<rparr>) st
              | Never \<Rightarrow> st)
         | Waiting \<Rightarrow> st
         | Running \<Rightarrow> st
         | Returned \<Rightarrow> st
         | Threw \<Rightarrow> st)
      else st)"

text \<open>\<^verbatim>\<open>handleIncoming(tabId, urlStr)\<close>, statement by statement.\<close>

definition deliver ::
  "'m platform \<Rightarrow> tabId \<Rightarrow> string \<Rightarrow> string \<Rightarrow> 'm \<Rightarrow> ('m, 't) bg_state
     \<Rightarrow> exn option \<times> ('m, 't) bg_state" where
  "deliver P tabId type ident message st =
     (if type = ''REQ'' then (None, dispatchRequest tabId ident message st)
      else if type = ''RES'' then
        (case pendingRequests st ident of
           None \<Rightarrow> (None, st)
         | Some r \<Rightarrow>
             (case run_resolver P r message st of
                (Some e, st1) \<Rightarrow> (Some e, st1)
              | (None, st1) \<Rightarrow>
                  (None, st1\<lparr>pendingRequests := (pendingRequests st1)(ident := None)\<rparr>)))
      else (None, st))"

definition handleIncoming ::
  "'m platform \<Rightarrow> tabId \<Rightarrow> url \<Rightarrow> ('m, 't) bg_state \<Rightarrow> exn option \<times> ('m, 't) bg_state" where
  "handleIncoming P tabId u st =
     (let h = drop 1 (url_hash u) in
      if \<not> startsWith h ''MSG:'' then (None, st)
      else case match_msg h of
        None \<Rightarrow> (None, st)
      | Some (type, ident, sq, data) \<Rightarrow>
          (let idx = fst (parse_seq sq); tot = snd (parse_seq sq) in
           case (case incomingBuffers st ident of None \<Rightarrow> new_Array tot | Some b \<Rightarrow> Inr b) of
             Inl e \<Rightarrow> (Some e, st)
           | Inr old \<Rightarrow>
               (let buffer = array_set old idx data;
                    st1 = st\<lparr>incomingBuffers := (incomingBuffers st)(ident \<mapsto> buffer)\<rparr>;
                    st2 = updateTabHash tabId (url_base u) (ack_frame ident idx) st1
                in if is_complete buffer tot then
                     (case parse_payload P (join_array buffer) of
                        Inl e \<Rightarrow> (Some e, st2)
                      | Inr message \<Rightarrow>
                          deliver P tabId type ident message
                            (st2\<lparr>incomingBuffers := (incomingBuffers st2)(ident := None)\<rparr>))
                   else (None, st2))))"

text \<open>
  The events. A change of a tab's URL goes to the listener registered when the module
  loads (\<^verbatim>\<open>handleIncoming\<close>, skipped when \<^verbatim>\<open>info.url\<close> is missing), then to the
  \<^verbatim>\<open>onUpdated\<close> of the senders that were listening, in the order they were added. An
  exception leaves a listener and is reported; the other listeners still run.
\<close>

datatype ('m, 't) bg_event =
    SendMessage tabId 'm
  | OnMessage "'m \<Rightarrow> 't \<Rightarrow> 'm hresult"
  | TabUpdated tabId "url option"
  | TimerFires nat
  | TabsGetAnswers nat url
  | DispatchResumes nat "'t option"
  | PromiseSettles nat

definition report :: "exn option \<times> ('m, 't) bg_state \<Rightarrow> ('m, 't) bg_state" where
  "report r = (case r of (None, st) \<Rightarrow> st | (Some e, st) \<Rightarrow> st\<lparr>uncaught := uncaught st @ [e]\<rparr>)"

definition notify_senders ::
  "tabId \<Rightarrow> url option \<Rightarrow> nat \<Rightarrow> ('m, 't) bg_state \<Rightarrow> ('m, 't) bg_state" where
  "notify_senders tabId info_url n st =
     foldl (\<lambda>s k. if s_listening (senders s ! k) then onUpdated k tabId info_url s else s) st [0..<n]"

definition tab_updated ::
  "'m platform \<Rightarrow> tabId \<Rightarrow> url option \<Rightarrow> ('m, 't) bg_state \<Rightarrow> ('m, 't) bg_state" where
  "tab_updated P tabId info_url st =
     (let st1 = (case info_url of
                   None \<Rightarrow> st
                 | Some u \<Rightarrow> report (handleIncoming P tabId u st))
      in notify_senders tabId info_url (length (senders st)) st1)"

definition timer_fires :: "'m platform \<Rightarrow> nat \<Rightarrow> ('m, 't) bg_state \<Rightarrow> ('m, 't) bg_state" where
  "timer_fires P k st =
     (if k < length (timers st) \<and> \<not> t_fired (timers st ! k) then
        report (timeout_callback P (timers st ! k)
                  (st\<lparr>timers := (timers st)[k := (timers st ! k)\<lparr>t_fired := True\<rparr>]\<rparr>))
      else st)"

fun bg_step :: "'m platform \<Rightarrow> ('m, 't) bg_state \<Rightarrow> ('m, 't) bg_event \<Rightarrow> ('m, 't) bg_state" where
  "bg_step P st (SendMessage tabId message) = sendMessage P tabId message st"
| "bg_step P st (OnMessage handler) = onMessage handler st"
| "bg_step P st (TabUpdated tabId info_url) = tab_updated P tabId info_url st"
| "bg_step P st (TimerFires k) = timer_fires P k st"
| "bg_step P st (TabsGetAnswers k u) = tabs_get_callback k u st"
| "bg_step P st (DispatchResumes k answer) = dispatch_resume P k answer st"
| "bg_step P st (PromiseSettles k) = promise_settles P k st"

definition bg_run :: "'m platform \<Rightarrow> ('m, 't) bg_event list \<Rightarrow> ('m, 't) bg_state" where
  "bg_run P events = foldl (bg_step P) bg_init events"

section \<open>The content side\<close>

text \<open>
  The second module: one channel, written with \<^verbatim>\<open>history.replaceState\<close> and read from
  \<^verbatim>\<open>location.hash\<close>, and a session secret set by an \<^verbatim>\<open>INIT\<close> frame. \<open>ct_location_hash\<close> is
  \<^verbatim>\<open>location.hash\<close>; \<open>ct_secret\<close> is \<open>None\<close> while the variable \<^verbatim>\<open>secret\<close> is \<^verbatim>\<open>null\<close>.
\<close>

record ct_timer =
  ct_t_id :: string
  ct_t_caller :: nat
  ct_t_delay :: nat
  ct_t_fired :: bool

record ct_sender =
  cs_type :: string
  cs_id :: string
  cs_chunks :: "string list"
  cs_total :: nat
  cs_index :: nat
  cs_listening :: bool

text \<open>The variables of one call of \<^verbatim>\<open>dispatchRequest\<close>, as on the background side.\<close>

record 'm ct_dispatch =
  cd_id :: string
  cd_message :: 'm
  cd_next :: nat
  cd_responded :: bool
  cd_status :: "'m dstatus"
  cd_sent :: "nat list"

record 'm ct_state =
  ct_pendingRequests :: "string \<rightharpoonup> nat"
  ct_incomingBuffers :: "string \<rightharpoonup> jsarray"
  ct_messageHandlers :: "('m \<Rightarrow> unit \<Rightarrow> 'm hresult) list"
  ct_sendQueue :: "('m \<times> nat) list"
  ct_isSending :: bool
  ct_secret :: "string option"
  ct_senders :: "ct_sender list"
  ct_timers :: "ct_timer list"
  ct_location_hash :: string
  ct_writes :: "string list"
  ct_settlements :: "(nat \<times> 'm settlement) list"
  ct_promises :: nat
  ct_uuid_calls :: nat
  ct_dispatches :: "'m ct_dispatch list"
  ct_invocations :: "(nat \<times> nat \<times> 'm \<times> unit) list"
  ct_uncaught :: "exn list"

definition ct_empty :: "string \<Rightarrow> 'm ct_state" where
  "ct_empty h0 =
     \<lparr>ct_pendingRequests = Map.empty, ct_incomingBuffers = Map.empty, ct_messageHandlers = [],
      ct_sendQueue = [], ct_isSending = False, ct_secret = None, ct_senders = [],
      ct_timers = [], ct_location_hash = h0, ct_writes = [], ct_settlements = [],
      ct_promises = 0, ct_uuid_calls = 0, ct_dispatches = [], ct_invocations = [],
      ct_uncaught = []\<rparr>"

text \<open>\<^verbatim>\<open>sendRaw\<close>: \<^verbatim>\<open>history.replaceState(null, '', '#' + payload)\<close>.\<close>

definition sendRaw :: "string \<Rightarrow> 'm ct_state \<Rightarrow> 'm ct_state" where
  "sendRaw payload st =
     st\<lparr>ct_location_hash := CHR ''#'' # payload, ct_writes := ct_writes st @ [payload]\<rparr>"

text \<open>\<^verbatim>\<open>${secret}\<close> in a template literal, and \<^verbatim>\<open>!secret\<close>.\<close>

definition secret_text :: "string option \<Rightarrow> string" where
  "secret_text sec = (case sec of None \<Rightarrow> ''null'' | Some x \<Rightarrow> x)"

definition no_secret :: "string option \<Rightarrow> bool" where
  "no_secret sec = (case sec of None \<Rightarrow> True | Some x \<Rightarrow> x = [])"

definition ct_sendNext_payload :: "string option \<Rightarrow> ct_sender \<Rightarrow> string" where
  "ct_sendNext_payload sec s =
     ''MSG:'' @ secret_text sec @ '':'' @
     frame_body (cs_type s) (cs_id s) (cs_index s) (cs_total s) (chunk_text (cs_chunks s) (cs_index s))"

definition ct_sendNext :: "nat \<Rightarrow> 'm ct_state \<Rightarrow> 'm ct_state" where
  "ct_sendNext k st =
     (let s = ct_senders st ! k;
          st1 = sendRaw (ct_sendNext_payload (ct_secret st) s) st
      in st1\<lparr>ct_senders := (ct_senders st1)[k := s\<lparr>cs_index := cs_index s + 1\<rparr>]\<rparr>)"

definition ct_expected_ack :: "string option \<Rightarrow> ct_sender \<Rightarrow> string" where
  "ct_expected_ack sec s =
     ''ACK:'' @ secret_text sec @ '':'' @ cs_id s @ '':'' @ show_int (int (cs_index s) - 1)"

text \<open>The listener \<^verbatim>\<open>handleAck\<close> of sender \<open>k\<close>.\<close>

definition handleAck :: "nat \<Rightarrow> 'm ct_state \<Rightarrow> 'm ct_state" where
  "handleAck k st =
     (let s = ct_senders st ! k in
      if drop 1 (ct_location_hash st) = ct_expected_ack (ct_secret st) s then
        (if cs_index s < cs_total s then ct_sendNext k st
         else st\<lparr>ct_senders := (ct_senders st)[k := s\<lparr>cs_listening := False\<rparr>]\<rparr>)
      else st)"

definition ct_sendChunks ::
  "'m platform \<Rightarrow> string \<Rightarrow> string \<Rightarrow> 'm option \<Rightarrow> 'm ct_state \<Rightarrow> exn option \<times> 'm ct_state" where
  "ct_sendChunks P type ident data st =
     (case encode_chunks P data of
        Inl e \<Rightarrow> (Some e, st)
      | Inr None \<Rightarrow> (None, st)
      | Inr (Some chunks) \<Rightarrow>
          (None,
           ct_sendNext (length (ct_senders st))
             (st\<lparr>ct_senders := ct_senders st @
                   [\<lparr>cs_type = type, cs_id = ident, cs_chunks = chunks, cs_total = length chunks,
                     cs_index = 0, cs_listening = True\<rparr>]\<rparr>)))"

definition ct_processQueue :: "'m platform \<Rightarrow> 'm ct_state \<Rightarrow> exn option \<times> 'm ct_state" where
  "ct_processQueue P st =
     (if ct_isSending st then (None, st)
      else if ct_sendQueue st = [] then (None, st)
      else if no_secret (ct_secret st) then (None, st)
      else
        (let st1 = st\<lparr>ct_isSending := True\<rparr>;
             message = fst (hd (ct_sendQueue st1));
             caller = snd (hd (ct_sendQueue st1));
             st2 = st1\<lparr>ct_sendQueue := tl (ct_sendQueue st1)\<rparr>;
             ident = randomUUID P (ct_uuid_calls st2);
             st3 = st2\<lparr>ct_uuid_calls := ct_uuid_calls st2 + 1\<rparr>;
             st4 = st3\<lparr>ct_pendingRequests := (ct_pendingRequests st3)(ident \<mapsto> caller)\<rparr>
         in case ct_sendChunks P ''REQ'' ident (Some message) st4 of
              (Some e, st5) \<Rightarrow> (Some e, st5)
            | (None, st5) \<Rightarrow>
                (None,
                 st5\<lparr>ct_timers := ct_timers st5 @
                       [\<lparr>ct_t_id = ident, ct_t_caller = caller, ct_t_delay = 30000,
                         ct_t_fired = False\<rparr>]\<rparr>)))"

definition ct_settle :: "nat \<Rightarrow> 'm settlement \<Rightarrow> 'm ct_state \<Rightarrow> 'm ct_state" where
  "ct_settle caller outcome st = st\<lparr>ct_settlements := ct_settlements st @ [(caller, outcome)]\<rparr>"

definition ct_run_resolver ::
  "'m platform \<Rightarrow> nat \<Rightarrow> 'm \<Rightarrow> 'm ct_state \<Rightarrow> exn option \<times> 'm ct_state" where
  "ct_run_resolver P caller result st =
     ct_processQueue P ((ct_settle caller (Resolved result) st)\<lparr>ct_isSending := False\<rparr>)"

definition ct_timeout_callback ::
  "'m platform \<Rightarrow> ct_timer \<Rightarrow> 'm ct_state \<Rightarrow> exn option \<times> 'm ct_state" where
  "ct_timeout_callback P t st =
     (if ct_pendingRequests st (ct_t_id t) \<noteq> None then
        ct_processQueue P
          ((ct_settle (ct_t_caller t) Rejected_Timeout
              (st\<lparr>ct_pendingRequests := (ct_pendingRequests st)(ct_t_id t := None)\<rparr>))
           \<lparr>ct_isSending := False\<rparr>)
      else (None, st))"

definition ct_sendMessage :: "'m platform \<Rightarrow> 'm \<Rightarrow> 'm ct_state \<Rightarrow> 'm ct_state" where
  "ct_sendMessage P message st =
     (let caller = ct_promises st;
          st1 = st\<lparr>ct_promises := ct_promises st + 1\<rparr>;
          st2 = st1\<lparr>ct_sendQueue := ct_sendQueue st1 @ [(message, caller)]\<rparr>
      in case ct_processQueue P st2 of
           (None, st3) \<Rightarrow> st3
         | (Some e, st3) \<Rightarrow> ct_settle caller (Rejected e) st3)"

definition ct_onMessage :: "('m \<Rightarrow> unit \<Rightarrow> 'm hresult) \<Rightarrow> 'm ct_state \<Rightarrow> 'm ct_state" where
  "ct_onMessage handler st = st\<lparr>ct_messageHandlers := ct_messageHandlers st @ [handler]\<rparr>"

text \<open>
  \<^verbatim>\<open>sendResponse\<close> and the loop over the handlers of call \<open>k\<close> of \<^verbatim>\<open>dispatchRequest\<close>, each
  handler called with the message and \<^verbatim>\<open>{}\<close>. Here the loop starts inside
  \<^verbatim>\<open>dispatchRequest(id, message)\<close> itself: the first handlers are called before
  \<^verbatim>\<open>handleIncoming\<close> returns.
\<close>

definition ct_set_dispatch ::
  "nat \<Rightarrow> ('m ct_dispatch \<Rightarrow> 'm ct_dispatch) \<Rightarrow> 'm ct_state \<Rightarrow> 'm ct_state" where
  "ct_set_dispatch k f st = st\<lparr>ct_dispatches := (ct_dispatches st)[k := f (ct_dispatches st ! k)]\<rparr>"

definition ct_sendResponse ::
  "'m platform \<Rightarrow> nat \<Rightarrow> 'm option \<Rightarrow> 'm ct_state \<Rightarrow> exn option \<times> 'm ct_state" where
  "ct_sendResponse P k response st =
     (let d = ct_dispatches st ! k in
      if cd_responded d then (None, st)
      else
        (let st1 = ct_set_dispatch k (\<lambda>d. d\<lparr>cd_responded := True\<rparr>) st in
         case ct_sendChunks P ''RES'' (cd_id d) response st1 of
           (Some e, st2) \<Rightarrow> (Some e, st2)
         | (None, st2) \<Rightarrow>
             (None,
              ct_set_dispatch k (\<lambda>d. d\<lparr>cd_sent := cd_sent d @ [length (ct_senders st1)]\<rparr>) st2)))"

fun ct_handlers_loop ::
  "'m platform \<Rightarrow> nat \<Rightarrow> ('m \<Rightarrow> unit \<Rightarrow> 'm hresult) list \<Rightarrow> 'm ct_state \<Rightarrow> 'm ct_state" where
  "ct_handlers_loop P k [] st = ct_set_dispatch k (\<lambda>d. d\<lparr>cd_status := Returned\<rparr>) st"
| "ct_handlers_loop P k (handler # hs) st =
     (let d = ct_dispatches st ! k;
          st1 = ct_set_dispatch k (\<lambda>d. d\<lparr>cd_next := cd_next d + 1\<rparr>)
                  (st\<lparr>ct_invocations := ct_invocations st @ [(k, cd_next d, cd_message d, ())]\<rparr>)
      in case handler (cd_message d) () of
        Absent \<Rightarrow> ct_handlers_loop P k hs st1
      | Present response \<Rightarrow>
          (case ct_sendResponse P k response st1 of
             (Some e, st2) \<Rightarrow> ct_set_dispatch k (\<lambda>d. d\<lparr>cd_status := Threw\<rparr>) st2
           | (None, st2) \<Rightarrow> ct_handlers_loop P k hs st2)
      | Fails \<Rightarrow> ct_set_dispatch k (\<lambda>d. d\<lparr>cd_status := Threw\<rparr>) st1
      | Later p \<Rightarrow> ct_set_dispatch k (\<lambda>d. d\<lparr>cd_status := Awaiting p\<rparr>) st1)"

definition ct_dispatchRequest :: "'m platform \<Rightarrow> string \<Rightarrow> 'm \<Rightarrow> 'm ct_state \<Rightarrow> 'm ct_state" where
  "ct_dispatchRequest P ident message st =
     ct_handlers_loop P (length (ct_dispatches st)) (ct_messageHandlers st)
       (st\<lparr>ct_dispatches := ct_dispatches st @
             [\<lparr>cd_id = ident, cd_message = message, cd_next = 0, cd_responded = False,
               cd_status = Running, cd_sent = []\<rparr>]\<rparr>)"

text \<open>The promise that call \<open>k\<close> awaits is settled.\<close>

definition ct_promise_settles :: "'m platform \<Rightarrow> nat \<Rightarrow> 'm ct_state \<Rightarrow> 'm ct_state" where
  "ct_promise_settles P k st =
     (if k < length (ct_dispatches st) then
        (let d = ct_dispatches st ! k in
         case cd_status d of
           Awaiting p \<Rightarrow>
             (case p of
                Fulfils response \<Rightarrow>
                  (case ct_sendResponse P k response
                          (ct_set_dispatch k (\<lambda>d. d\<lparr>cd_status := Running\<rparr>) st) of
                     (Some e, st2) \<Rightarrow> ct_set_dispatch k (\<lambda>d. d\<lparr>cd_status := Threw\<rparr>) st2
                   | (None, st2) \<Rightarrow>
                       ct_handlers_loop P k (drop (cd_next d) (ct_messageHandlers st2)) st2)
              | Rejects \<Rightarrow> ct_set_dispatch k (\<lambda>d. d\<lparr>cd_status := Threw\<rparr>) st
              | Never \<Rightarrow> st)
         | Waiting \<Rightarrow> st
         | Running \<Rightarrow> st
         | Returned \<Rightarrow> st
         | Threw \<Rightarrow> st)
      else st)"

definition ct_deliver ::
  "'m platform \<Rightarrow> string \<Rightarrow> string \<Rightarrow> 'm \<Rightarrow> 'm ct_state \<Rightarrow> exn option \<times> 'm ct_state" where
  "ct_deliver P type ident message st =
     (if type = ''REQ'' then (None, ct_dispatchRequest P ident message st)
      else
        (case ct_pendingRequests st ident of
           None \<Rightarrow> (None, st)
         | Some caller \<Rightarrow>
             (case ct_run_resolver P caller message st of
                (Some e, st1) \<Rightarrow> (Some e, st1)
              | (None, st1) \<Rightarrow>
                  (None, st1\<lparr>ct_pendingRequests := (ct_pendingRequests st1)(ident := None)\<rparr>))))"

definition ct_handleIncoming :: "'m platform \<Rightarrow> 'm ct_state \<Rightarrow> exn option \<times> 'm ct_state" where
  "ct_handleIncoming P st =
     (let h = drop 1 (ct_location_hash st) in
      if startsWith h ''INIT:'' then
        ct_processQueue P
          (sendRaw (''ACK-INIT:'' @ drop 5 h) (st\<lparr>ct_secret := Some (drop 5 h)\<rparr>))
      else if \<not> startsWith h ''MSG:'' then (None, st)
      else case match_secret_msg h of
        None \<Rightarrow> (None, st)
      | Some (sec, type, ident, sq, data) \<Rightarrow>
          if Some sec \<noteq> ct_secret st then (None, st)
          else
            (let idx = fst (parse_seq sq); tot = snd (parse_seq sq) in
             case (case ct_incomingBuffers st ident of None \<Rightarrow> new_Array tot | Some b \<Rightarrow> Inr b) of
               Inl e \<Rightarrow> (Some e, st)
             | Inr old \<Rightarrow>
                 (let buffer = array_set old idx data;
                      st1 = st\<lparr>ct_incomingBuffers := (ct_incomingBuffers st)(ident \<mapsto> buffer)\<rparr>;
                      st2 = sendRaw (''ACK:'' @ secret_text (ct_secret st1) @ '':'' @ ident @ '':''
                                       @ show_num idx) st1
                  in if is_complete buffer tot then
                       (case parse_payload P (join_array buffer) of
                          Inl e \<Rightarrow> (Some e, st2)
                        | Inr message \<Rightarrow>
                            ct_deliver P type ident message
                              (st2\<lparr>ct_incomingBuffers := (ct_incomingBuffers st2)(ident := None)\<rparr>))
                     else (None, st2))))"

text \<open>
  The events. \<^verbatim>\<open>hashchange\<close> goes to \<^verbatim>\<open>handleIncoming\<close>, registered when the module
  loads, then to the \<^verbatim>\<open>handleAck\<close> of the senders that were listening, in the order they
  were added; each reads \<^verbatim>\<open>location.hash\<close> as it is when its turn comes. The module
  also calls \<^verbatim>\<open>handleIncoming()\<close> once while it loads.
\<close>

datatype 'm ct_event =
    CtSendMessage 'm
  | CtOnMessage "'m \<Rightarrow> unit \<Rightarrow> 'm hresult"
  | HashChange string
  | CtTimerFires nat
  | CtPromiseSettles nat

definition ct_report :: "exn option \<times> 'm ct_state \<Rightarrow> 'm ct_state" where
  "ct_report r =
     (case r of (None, st) \<Rightarrow> st | (Some e, st) \<Rightarrow> st\<lparr>ct_uncaught := ct_uncaught st @ [e]\<rparr>)"

definition ct_notify_senders :: "nat \<Rightarrow> 'm ct_state \<Rightarrow> 'm ct_state" where
  "ct_notify_senders n st =
     foldl (\<lambda>s k. if cs_listening (ct_senders s ! k) then handleAck k s else s) st [0..<n]"

definition hashchange :: "'m platform \<Rightarrow> string \<Rightarrow> 'm ct_state \<Rightarrow> 'm ct_state" where
  "hashchange P h st =
     ct_notify_senders (length (ct_senders st))
       (ct_report (ct_handleIncoming P (st\<lparr>ct_location_hash := h\<rparr>)))"

definition ct_timer_fires :: "'m platform \<Rightarrow> nat \<Rightarrow> 'm ct_state \<Rightarrow> 'm ct_state" where
  "ct_timer_fires P k st =
     (if k < length (ct_timers st) \<and> \<not> ct_t_fired (ct_timers st ! k) then
        ct_report (ct_timeout_callback P (ct_timers st ! k)
                     (st\<lparr>ct_timers := (ct_timers st)[k := (ct_timers st ! k)\<lparr>ct_t_fired := True\<rparr>]\<rparr>))
      else st)"

fun ct_step :: "'m platform \<Rightarrow> 'm ct_state \<Rightarrow> 'm ct_event \<Rightarrow> 'm ct_state" where
  "ct_step P st (CtSendMessage message) = ct_sendMessage P message st"
| "ct_step P st (CtOnMessage handler) = ct_onMessage handler st"
| "ct_step P st (HashChange h) = hashchange P h st"
| "ct_step P st (CtTimerFires k) = ct_timer_fires P k st"
| "ct_step P st (CtPromiseSettles k) = ct_promise_settles P k st"

definition ct_init :: "'m platform \<Rightarrow> string \<Rightarrow> 'm ct_state" where
  "ct_init P h0 = ct_report (ct_handleIncoming P (ct_empty h0))"

definition ct_run :: "'m platform \<Rightarrow> string \<Rightarrow> 'm ct_event list \<Rightarrow> 'm ct_state" where
  "ct_run P h0 events = foldl (ct_step P) (ct_init P h0) events"

section \<open>Notions used in the statements\<close>

text \<open>
  A text is well formed when it has no surrogate without its partner, which is when
  \<^verbatim>\<open>encodeURIComponent\<close> does not throw; \<^verbatim>\<open>JSON.stringify\<close> only returns such texts.
\<close>

definition well_formed :: "utf16 \<Rightarrow> bool" where
  "well_formed str = (case codePoints str of Inl e \<Rightarrow> False | Inr ps \<Rightarrow> True)"

definition serializable :: "'m platform \<Rightarrow> bool" where
  "serializable P = (\<forall>m. well_formed (JSON_stringify P m))"

text \<open>
  What \<^verbatim>\<open>sendResponse\<close> is given for a handler's result, if anything: the value returned, or
  what the returned promise is fulfilled with. \<open>answers\<close> lists these for some handlers in
  registration order. A handler \<open>passes\<close> when the loop can go on after it: it returns
  \<^verbatim>\<open>undefined\<close> or a value, or its promise is fulfilled.
\<close>

fun answer :: "'m hresult \<Rightarrow> 'm option list" where
  "answer Absent = []"
| "answer (Present v) = [v]"
| "answer Fails = []"
| "answer (Later (Fulfils v)) = [v]"
| "answer (Later Rejects) = []"
| "answer (Later Never) = []"

definition answers :: "('m \<Rightarrow> 'c \<Rightarrow> 'm hresult) list \<Rightarrow> 'm \<Rightarrow> 'c \<Rightarrow> 'm option list" where
  "answers hs message ctx = concat (map (\<lambda>h. answer (h message ctx)) hs)"

fun passes :: "'m hresult \<Rightarrow> bool" where
  "passes Absent = True"
| "passes (Present v) = True"
| "passes Fails = False"
| "passes (Later (Fulfils v)) = True"
| "passes (Later Rejects) = False"
| "passes (Later Never) = False"

text \<open>
  The calls of the handlers at positions \<open>i\<close> to \<open>j - 1\<close>, each with the message and the
  context; and the calls that call \<open>k\<close> of \<^verbatim>\<open>dispatchRequest\<close> made, from the log of all calls.
\<close>

definition called :: "nat \<Rightarrow> nat \<Rightarrow> 'm \<Rightarrow> 'c \<Rightarrow> (nat \<times> 'm \<times> 'c) list" where
  "called i j message ctx = map (\<lambda>k. (k, message, ctx)) [i..<j]"

definition calls_of :: "(nat \<times> nat \<times> 'm \<times> 'c) list \<Rightarrow> nat \<Rightarrow> (nat \<times> 'm \<times> 'c) list" where
  "calls_of log k = map snd (filter (\<lambda>c. fst c = k) log)"

text \<open>
  Of the \<open>n\<close> handlers a call of \<^verbatim>\<open>dispatchRequest\<close> has called, the number whose result it has
  been given (all but the last while it waits for that one's promise), and the number it
  has gone past (all but the last when that one made it throw).
\<close>

definition obtained :: "'m dstatus \<Rightarrow> nat \<Rightarrow> nat" where
  "obtained status n = (case status of Awaiting p \<Rightarrow> n - 1 | _ \<Rightarrow> n)"

definition gone_past :: "'m dstatus \<Rightarrow> nat \<Rightarrow> nat" where
  "gone_past status n = (case status of Awaiting p \<Rightarrow> n - 1 | Threw \<Rightarrow> n - 1 | _ \<Rightarrow> n)"

text \<open>
  What holds of a call of \<^verbatim>\<open>dispatchRequest\<close> for the message \<open>message\<close> at any moment, given
  the registered handlers \<open>hs\<close>, the calls it made (\<open>log\<close>), the position \<open>n\<close> of its loop,
  its \<^verbatim>\<open>responded\<close> and the calls of \<^verbatim>\<open>sendChunks\<close> it made (\<open>sent\<close>): it has called the first
  \<open>n\<close> handlers, in registration order, each once, with the message and the context; it
  went past a handler only if that one returned \<^verbatim>\<open>undefined\<close> or a value or a promise that
  was fulfilled; while it waits, it waits for the promise of the last handler called; if
  it threw, the last handler called threw or its promise was rejected;
  \<^verbatim>\<open>responded\<close> is set exactly when one of the results it was given is present, and then
  it has called \<^verbatim>\<open>sendChunks\<close> once, and otherwise never.
\<close>

definition loop_ok ::
  "('m \<Rightarrow> 'c \<Rightarrow> 'm hresult) list \<Rightarrow> 'm \<Rightarrow> 'c \<Rightarrow> (nat \<times> 'm \<times> 'c) list \<Rightarrow> nat \<Rightarrow> 'm dstatus
     \<Rightarrow> bool \<Rightarrow> nat list \<Rightarrow> bool" where
  "loop_ok hs message ctx log n status responded sent =
     (n \<le> length hs
      \<and> log = called 0 n message ctx
      \<and> (\<forall>i<gone_past status n. passes ((hs ! i) message ctx))
      \<and> (\<forall>p. status = Awaiting p \<longrightarrow> 0 < n \<and> (hs ! (n - 1)) message ctx = Later p)
      \<and> (status = Threw \<longrightarrow> 0 < n \<and> \<not> passes ((hs ! (n - 1)) message ctx))
      \<and> responded = (answers (take (obtained status n) hs) message ctx \<noteq> [])
      \<and> length sent = (if responded then 1 else 0))"

text \<open>
  Sender \<open>j\<close> of the background side transmits the response \<open>v\<close> to the request \<open>ident\<close> of
  tab \<open>tabId\<close>: it is a \<^verbatim>\<open>RES\<close> of that identifier for that tab, its chunks are those of the
  encoded \<open>v\<close>, and its first frame was given to \<^verbatim>\<open>tabs.update\<close>, unless its
  \<^verbatim>\<open>browser.tabs.get\<close> has not answered yet. On the content side the first frame was written
  to the slot, with the secret of that moment.
\<close>

definition response_sender ::
  "'m platform \<Rightarrow> ('m, 't) bg_state \<Rightarrow> tabId \<Rightarrow> string \<Rightarrow> 'm option \<Rightarrow> nat \<Rightarrow> bool" where
  "response_sender P st tabId ident v j =
     (j < length (senders st)
      \<and> s_tab (senders st ! j) = tabId
      \<and> s_type (senders st ! j) = ''RES''
      \<and> s_id (senders st ! j) = ident
      \<and> encode_chunks P v = Inr (Some (s_chunks (senders st ! j)))
      \<and> s_total (senders st ! j) = length (s_chunks (senders st ! j))
      \<and> (s_get_pending (senders st ! j)
         \<or> (\<exists>u\<in>set (tab_updates st). fst u = tabId
               \<and> suffix (''#'' @ sendNext_payload ((senders st ! j)\<lparr>s_index := 0\<rparr>)) (snd u))))"

definition ct_response_sender ::
  "'m platform \<Rightarrow> 'm ct_state \<Rightarrow> string \<Rightarrow> 'm option \<Rightarrow> nat \<Rightarrow> bool" where
  "ct_response_sender P st ident v j =
     (j < length (ct_senders st)
      \<and> cs_type (ct_senders st ! j) = ''RES''
      \<and> cs_id (ct_senders st ! j) = ident
      \<and> encode_chunks P v = Inr (Some (cs_chunks (ct_senders st ! j)))
      \<and> cs_total (ct_senders st ! j) = length (cs_chunks (ct_senders st ! j))
      \<and> (\<exists>w\<in>set (ct_writes st). \<exists>sec.
            w = ct_sendNext_payload sec ((ct_senders st ! j)\<lparr>cs_index := 0\<rparr>)))"

text \<open>
  What holds of call \<open>k\<close> of \<^verbatim>\<open>dispatchRequest\<close> in a state. Before \<^verbatim>\<open>browser.tabs.get\<close> has
  answered it has called no handler and sent nothing. Afterwards \<open>loop_ok\<close> holds of it,
  and the one call of \<^verbatim>\<open>sendChunks\<close> it made, if any, transmits the first present result
  among those it was given.
\<close>

definition dispatch_ok :: "'m platform \<Rightarrow> ('m, 't) bg_state \<Rightarrow> nat \<Rightarrow> bool" where
  "dispatch_ok P st k =
     (let d = dispatches st ! k in
      case d_context d of
        None \<Rightarrow>
          calls_of (invocations st) k = [] \<and> d_next d = 0 \<and> \<not> d_responded d \<and> d_sent d = []
          \<and> (d_status d = Waiting \<or> d_status d = Threw)
      | Some tab \<Rightarrow>
          loop_ok (messageHandlers st) (d_message d) tab (calls_of (invocations st) k)
            (d_next d) (d_status d) (d_responded d) (d_sent d)
          \<and> d_status d \<noteq> Waiting
          \<and> (\<forall>j\<in>set (d_sent d).
                response_sender P st (d_tab d) (d_id d)
                  (hd (answers (take (obtained (d_status d) (d_next d)) (messageHandlers st))
                         (d_message d) tab)) j))"

definition ct_dispatch_ok :: "'m platform \<Rightarrow> 'm ct_state \<Rightarrow> nat \<Rightarrow> bool" where
  "ct_dispatch_ok P st k =
     (let d = ct_dispatches st ! k in
      loop_ok (ct_messageHandlers st) (cd_message d) () (calls_of (ct_invocations st) k)
        (cd_next d) (cd_status d) (cd_responded d) (cd_sent d)
      \<and> cd_status d \<noteq> Waiting
      \<and> (\<forall>j\<in>set (cd_sent d).
            ct_response_sender P st (cd_id d)
              (hd (answers (take (obtained (cd_status d) (cd_next d)) (ct_messageHandlers st))
                     (cd_message d) ())) j))"

text \<open>
  What the proofs carry along with it. A sender that has sent has sent its first frame
  (\<open>sender_ok\<close>); the calls in the log are calls of existing calls of
  \<^verbatim>\<open>dispatchRequest\<close>.
\<close>

definition sender_ok :: "('m, 't) bg_state \<Rightarrow> nat \<Rightarrow> bool" where
  "sender_ok st j =
     ((\<not> s_get_pending (senders st ! j) \<longrightarrow> 0 < s_index (senders st ! j))
      \<and> (0 < s_index (senders st ! j) \<longrightarrow>
           (\<exists>u\<in>set (tab_updates st). fst u = s_tab (senders st ! j)
               \<and> suffix (''#'' @ sendNext_payload ((senders st ! j)\<lparr>s_index := 0\<rparr>)) (snd u))))"

definition ct_sender_ok :: "'m ct_state \<Rightarrow> nat \<Rightarrow> bool" where
  "ct_sender_ok st j =
     (\<exists>w\<in>set (ct_writes st). \<exists>sec.
        w = ct_sendNext_payload sec ((ct_senders st ! j)\<lparr>cs_index := 0\<rparr>))"

definition bg_inv :: "'m platform \<Rightarrow> ('m, 't) bg_state \<Rightarrow> bool" where
  "bg_inv P st =
     ((\<forall>k<length (dispatches st). dispatch_ok P st k)
      \<and> (\<forall>j<length (senders st). sender_ok st j)
      \<and> (\<forall>c\<in>set (invocations st). fst c < length (dispatches st)))"

definition ct_inv :: "'m platform \<Rightarrow> 'm ct_state \<Rightarrow> bool" where
  "ct_inv P st =
     ((\<forall>k<length (ct_dispatches st). ct_dispatch_ok P st k)
      \<and> (\<forall>j<length (ct_senders st). ct_sender_ok st j)
      \<and> (\<forall>c\<in>set (ct_invocations st). fst c < length (ct_dispatches st)))"

text \<open>
  \<open>bg_progress P st ev st'\<close>: what the event \<open>ev\<close>, taking \<open>st\<close> to \<open>st'\<close>, does for the calls of
  \<^verbatim>\<open>dispatchRequest\<close>. A call returns only when it has called every handler registered by
  then. A frame that completes a request and decodes to \<open>message\<close> starts a call for it,
  which waits for \<^verbatim>\<open>browser.tabs.get\<close>. When that answers with the tab, the call has its
  context and waits for it no more. When the awaited promise is fulfilled, \<^verbatim>\<open>responded\<close> is
  set afterwards, and the call has returned or called a further handler; when it is
  rejected, the call has thrown. When \<^verbatim>\<open>browser.tabs.get\<close> answers a sender, the sender has
  sent.
\<close>

definition bg_progress ::
  "'m platform \<Rightarrow> ('m, 't) bg_state \<Rightarrow> ('m, 't) bg_event \<Rightarrow> ('m, 't) bg_state \<Rightarrow> bool" where
  "bg_progress P st ev st' =
     ((\<forall>k<length (dispatches st'). d_status (dispatches st' ! k) = Returned \<longrightarrow>
          (k < length (dispatches st) \<and> d_status (dispatches st ! k) = Returned)
          \<or> d_next (dispatches st' ! k) = length (messageHandlers st'))
      \<and> (\<forall>tabId u ident sq data old message.
            ev = TabUpdated tabId (Some u)
            \<and> match_msg (drop 1 (url_hash u)) = Some (''REQ'', ident, sq, data)
            \<and> (case incomingBuffers st ident of
                  None \<Rightarrow> new_Array (snd (parse_seq sq)) | Some b \<Rightarrow> Inr b) = Inr old
            \<and> is_complete (array_set old (fst (parse_seq sq)) data) (snd (parse_seq sq))
            \<and> parse_payload P (join_array (array_set old (fst (parse_seq sq)) data)) = Inr message
            \<longrightarrow> dispatches st' = dispatches st @
                  [\<lparr>d_tab = tabId, d_id = ident, d_message = message, d_context = None, d_next = 0,
                    d_responded = False, d_status = Waiting, d_sent = []\<rparr>])
      \<and> (\<forall>k tab. ev = DispatchResumes k (Some tab) \<and> k < length (dispatches st)
            \<and> d_status (dispatches st ! k) = Waiting
            \<longrightarrow> d_context (dispatches st' ! k) = Some tab \<and> d_status (dispatches st' ! k) \<noteq> Waiting)
      \<and> (\<forall>k v. ev = PromiseSettles k \<and> k < length (dispatches st)
            \<and> d_status (dispatches st ! k) = Awaiting (Fulfils v)
            \<longrightarrow> d_responded (dispatches st' ! k)
                \<and> (d_status (dispatches st' ! k) = Returned
                    \<or> d_next (dispatches st ! k) < d_next (dispatches st' ! k)))
      \<and> (\<forall>k. ev = PromiseSettles k \<and> k < length (dispatches st)
            \<and> d_status (dispatches st ! k) = Awaiting Rejects
            \<longrightarrow> d_status (dispatches st' ! k) = Threw)
      \<and> (\<forall>j u. ev = TabsGetAnswers j u \<and> j < length (senders st) \<and> s_get_pending (senders st ! j)
            \<longrightarrow> \<not> s_get_pending (senders st' ! j)))"

text \<open>
  The same on the content side, where the call starts its loop at once: after the event
  that completed the request it has returned or called a handler.
\<close>

definition ct_progress ::
  "'m platform \<Rightarrow> 'm ct_state \<Rightarrow> 'm ct_event \<Rightarrow> 'm ct_state \<Rightarrow> bool" where
  "ct_progress P st ev st' =
     ((\<forall>k<length (ct_dispatches st'). cd_status (ct_dispatches st' ! k) = Returned \<longrightarrow>
          (k < length (ct_dispatches st) \<and> cd_status (ct_dispatches st ! k) = Returned)
          \<or> cd_next (ct_dispatches st' ! k) = length (ct_messageHandlers st'))
      \<and> (\<forall>h sec ident sq data old message.
            ev = HashChange h
            \<and> match_secret_msg (drop 1 h) = Some (sec, ''REQ'', ident, sq, data)
            \<and> ct_secret st = Some sec
            \<and> (case ct_incomingBuffers st ident of
                  None \<Rightarrow> new_Array (snd (parse_seq sq)) | Some b \<Rightarrow> Inr b) = Inr old
            \<and> is_complete (array_set old (fst (parse_seq sq)) data) (snd (parse_seq sq))
            \<and> parse_payload P (join_array (array_set old (fst (parse_seq sq)) data)) = Inr message
            \<longrightarrow> length (ct_dispatches st') = Suc (length (ct_dispatches st))
                \<and> cd_id (ct_dispatches st' ! length (ct_dispatches st)) = ident
                \<and> cd_message (ct_dispatches st' ! length (ct_dispatches st)) = message
                \<and> (cd_status (ct_dispatches st' ! length (ct_dispatches st)) = Returned
                    \<or> 0 < cd_next (ct_dispatches st' ! length (ct_dispatches st))))
      \<and> (\<forall>k v. ev = CtPromiseSettles k \<and> k < length (ct_dispatches st)
            \<and> cd_status (ct_dispatches st ! k) = Awaiting (Fulfils v)
            \<longrightarrow> cd_responded (ct_dispatches st' ! k)
                \<and> (cd_status (ct_dispatches st' ! k) = Returned
                    \<or> cd_next (ct_dispatches st ! k) < cd_next (ct_dispatches st' ! k)))
      \<and> (\<forall>k. ev = CtPromiseSettles k \<and> k < length (ct_dispatches st)
            \<and> cd_status (ct_dispatches st ! k) = Awaiting Rejects
            \<longrightarrow> cd_status (ct_dispatches st' ! k) = Threw))"

text \<open>
  \<open>quiet st st'\<close>: a step from \<open>st\<close> to \<open>st'\<close> that runs no handler. It may start calls of
  \<^verbatim>\<open>dispatchRequest\<close>, which then wait for \<^verbatim>\<open>browser.tabs.get\<close>, and add senders; the senders
  there were keep their tab, type, identifier and chunks, and nothing is taken back from
  what was given to \<^verbatim>\<open>tabs.update\<close>.
\<close>

definition fresh :: "('m, 't) dispatch \<Rightarrow> bool" where
  "fresh d =
     (d_context d = None \<and> d_next d = 0 \<and> \<not> d_responded d \<and> d_sent d = [] \<and> d_status d = Waiting)"

definition sender_static :: "sender \<Rightarrow> tabId \<times> string \<times> string \<times> string list \<times> nat" where
  "sender_static s = (s_tab s, s_type s, s_id s, s_chunks s, s_total s)"

definition senders_grow :: "('m, 't) bg_state \<Rightarrow> ('m, 't) bg_state \<Rightarrow> bool" where
  "senders_grow st st' =
     (length (senders st) \<le> length (senders st')
      \<and> (\<forall>j<length (senders st). sender_static (senders st' ! j) = sender_static (senders st ! j))
      \<and> set (tab_updates st) \<subseteq> set (tab_updates st')
      \<and> ((\<forall>j<length (senders st). sender_ok st j) \<longrightarrow> (\<forall>j<length (senders st'). sender_ok st' j)))"

definition quiet :: "('m, 't) bg_state \<Rightarrow> ('m, 't) bg_state \<Rightarrow> bool" where
  "quiet st st' =
     ((\<exists>news. dispatches st' = dispatches st @ news \<and> list_all fresh news)
      \<and> invocations st' = invocations st
      \<and> messageHandlers st' = messageHandlers st
      \<and> senders_grow st st')"

definition ct_sender_static :: "ct_sender \<Rightarrow> string \<times> string \<times> string list \<times> nat" where
  "ct_sender_static s = (cs_type s, cs_id s, cs_chunks s, cs_total s)"

definition ct_senders_grow :: "'m ct_state \<Rightarrow> 'm ct_state \<Rightarrow> bool" where
  "ct_senders_grow st st' =
     (length (ct_senders st) \<le> length (ct_senders st')
      \<and> (\<forall>j<length (ct_senders st).
            ct_sender_static (ct_senders st' ! j) = ct_sender_static (ct_senders st ! j))
      \<and> set (ct_writes st) \<subseteq> set (ct_writes st')
      \<and> ((\<forall>j<length (ct_senders st). ct_sender_ok st j)
           \<longrightarrow> (\<forall>j<length (ct_senders st'). ct_sender_ok st' j)))"

definition ct_quiet :: "'m ct_state \<Rightarrow> 'm ct_state \<Rightarrow> bool" where
  "ct_quiet st st' =
     (ct_dispatches st' = ct_dispatches st
      \<and> ct_invocations st' = ct_invocations st
      \<and> ct_messageHandlers st' = ct_messageHandlers st
      \<and> ct_senders_grow st st')"

text \<open>
  For a tab: the promises of the calls \<^verbatim>\<open>sendMessage(tabId, ...)\<close> in the order of the calls;
  those of them that were settled, in the order they were settled; and the identifiers
  under which \<^verbatim>\<open>pendingRequests\<close> holds a request of that tab.
\<close>

definition submitted :: "('m, 't) bg_state \<Rightarrow> tabId \<Rightarrow> nat list" where
  "submitted st t = filter (\<lambda>c. calls st ! c = t) [0..<length (calls st)]"

definition settled :: "('m, 't) bg_state \<Rightarrow> tabId \<Rightarrow> nat list" where
  "settled st t =
     filter (\<lambda>c. c < length (calls st) \<and> calls st ! c = t) (map fst (settlements st))"

definition pending_of :: "('m, 't) bg_state \<Rightarrow> tabId \<Rightarrow> string set" where
  "pending_of st t = {i. \<exists>r. pendingRequests st i = Some r \<and> r_tab r = t}"

text \<open>
  The invariant of the background side. For every tab: while \<^verbatim>\<open>isSending\<close> is set, exactly
  one request of the tab is pending, and the tab's promises are, in order, the settled
  ones, the pending one, and the queued ones; while it is not set, none is pending and
  the promises are the settled ones followed by the queued ones. Identifiers in use came
  from \<^verbatim>\<open>crypto.randomUUID()\<close>, and a timer whose identifier has an entry belongs to that
  entry's request.
\<close>

definition tab_ok :: "('m, 't) bg_state \<Rightarrow> tabId \<Rightarrow> bool" where
  "tab_ok st t =
     (if isSending (tab_of st t) then
        (\<exists>i c. pendingRequests st i = Some \<lparr>r_caller = c, r_tab = t\<rparr>
               \<and> pending_of st t = {i}
               \<and> submitted st t = settled st t @ c # map snd (queue (tab_of st t)))
      else pending_of st t = {}
           \<and> submitted st t = settled st t @ map snd (queue (tab_of st t)))"

definition timer_keys :: "('m, 't) bg_state \<Rightarrow> (string \<times> nat \<times> tabId) list" where
  "timer_keys st = map (\<lambda>tm. (t_id tm, t_caller tm, t_tab tm)) (timers st)"

definition ids_ok :: "'m platform \<Rightarrow> ('m, 't) bg_state \<Rightarrow> bool" where
  "ids_ok P st =
     ((\<forall>i r. pendingRequests st i = Some r \<longrightarrow> (\<exists>n<uuid_calls st. i = randomUUID P n))
      \<and> (\<forall>k\<in>set (timer_keys st).
            (\<exists>n<uuid_calls st. fst k = randomUUID P n)
            \<and> (\<forall>r. pendingRequests st (fst k) = Some r
                   \<longrightarrow> r_caller r = fst (snd k) \<and> r_tab r = snd (snd k)))
      \<and> (\<forall>c\<in>set (map fst (settlements st)). c < length (calls st)))"

definition invariant :: "'m platform \<Rightarrow> ('m, 't) bg_state \<Rightarrow> bool" where
  "invariant P st = (ids_ok P st \<and> (\<forall>t. tab_ok st t))"

text \<open>\<open>same_core st st'\<close>: the two states agree on everything the invariant speaks of.\<close>

definition same_core :: "('m, 't) bg_state \<Rightarrow> ('m, 't) bg_state \<Rightarrow> bool" where
  "same_core st st' =
     (tab_of st' = tab_of st \<and> pendingRequests st' = pendingRequests st
      \<and> timer_keys st' = timer_keys st
      \<and> settlements st' = settlements st \<and> calls st' = calls st
      \<and> uuid_calls st' = uuid_calls st)"

section \<open>What a step leaves alone\<close>

text \<open>
  \<open>others_kept st st' ident\<close>: from \<open>st\<close> to \<open>st'\<close> nothing of the protocol state changed
  but, at most, the reassembly entry of \<open>ident\<close>: the pending requests, the queues and
  in-flight flags, the senders, the timers, the calls of \<^verbatim>\<open>dispatchRequest\<close> and of the
  handlers, the settled promises and the entries of all other identifiers are the same.
\<close>

definition others_kept :: "('m, 't) bg_state \<Rightarrow> ('m, 't) bg_state \<Rightarrow> string \<Rightarrow> bool" where
  "others_kept st st' ident =
     ((incomingBuffers st')(ident := None) = (incomingBuffers st)(ident := None)
      \<and> pendingRequests st' = pendingRequests st
      \<and> tabState st' = tabState st
      \<and> senders st' = senders st
      \<and> timers st' = timers st
      \<and> dispatches st' = dispatches st
      \<and> invocations st' = invocations st
      \<and> settlements st' = settlements st)"

definition ct_others_kept :: "'m ct_state \<Rightarrow> 'm ct_state \<Rightarrow> string \<Rightarrow> bool" where
  "ct_others_kept st st' ident =
     ((ct_incomingBuffers st')(ident := None) = (ct_incomingBuffers st)(ident := None)
      \<and> ct_pendingRequests st' = ct_pendingRequests st
      \<and> ct_sendQueue st' = ct_sendQueue st
      \<and> ct_isSending st' = ct_isSending st
      \<and> ct_secret st' = ct_secret st
      \<and> ct_senders st' = ct_senders st
      \<and> ct_timers st' = ct_timers st
      \<and> ct_dispatches st' = ct_dispatches st
      \<and> ct_invocations st' = ct_invocations st
      \<and> ct_settlements st' = ct_settlements st)"

text \<open>
  \<open>timed_out P st tm st'\<close>: from \<open>st\<close> to \<open>st'\<close> the request of timer \<open>tm\<close> was given up
  and the queue of its tab went on. The caller's \<^verbatim>\<open>reject(new Error('Timeout'))\<close> was called
  and no exception escaped. If the queue was empty, the entry of the request is gone,
  the tab is not sending and no sender was added. Otherwise the first queued request was
  taken: the tab is sending, the rest of the queue is left, the request has a new entry
  under a fresh identifier and its own timer of 30000 ms, and \<^verbatim>\<open>sendChunks\<close> was called for
  it (the senders are those after that call).
\<close>

definition timed_out ::
  "'m platform \<Rightarrow> ('m, 't) bg_state \<Rightarrow> timer \<Rightarrow> ('m, 't) bg_state \<Rightarrow> bool" where
  "timed_out P st tm st' =
     (settlements st' = settlements st @ [(t_caller tm, Rejected_Timeout)]
      \<and> uncaught st' = uncaught st
      \<and> (case queue (tab_of st (t_tab tm)) of
            [] \<Rightarrow>
              pendingRequests st' = (pendingRequests st)(t_id tm := None)
              \<and> \<not> isSending (tab_of st' (t_tab tm))
              \<and> senders st' = senders st
          | e # q \<Rightarrow>
              pendingRequests st' =
                ((pendingRequests st)(t_id tm := None))
                  (randomUUID P (uuid_calls st) \<mapsto> \<lparr>r_caller = snd e, r_tab = t_tab tm\<rparr>)
              \<and> isSending (tab_of st' (t_tab tm))
              \<and> queue (tab_of st' (t_tab tm)) = q
              \<and> last (timers st') =
                  \<lparr>t_id = randomUUID P (uuid_calls st), t_caller = snd e, t_tab = t_tab tm,
                   t_delay = 30000, t_fired = False\<rparr>
              \<and> senders st' =
                  senders (snd (sendChunks P (t_tab tm) ''REQ'' (randomUUID P (uuid_calls st))
                                  (Some (fst e)) st))))"

text \<open>
  The same on the content side, where \<^verbatim>\<open>sendChunks\<close> also writes the first chunk to the
  slot.
\<close>

definition ct_timed_out :: "'m platform \<Rightarrow> 'm ct_state \<Rightarrow> ct_timer \<Rightarrow> 'm ct_state \<Rightarrow> bool" where
  "ct_timed_out P st tm st' =
     (ct_settlements st' = ct_settlements st @ [(ct_t_caller tm, Rejected_Timeout)]
      \<and> ct_uncaught st' = ct_uncaught st
      \<and> (case ct_sendQueue st of
            [] \<Rightarrow>
              ct_pendingRequests st' = (ct_pendingRequests st)(ct_t_id tm := None)
              \<and> \<not> ct_isSending st'
              \<and> ct_senders st' = ct_senders st
              \<and> ct_writes st' = ct_writes st
          | e # q \<Rightarrow>
              ct_pendingRequests st' =
                ((ct_pendingRequests st)(ct_t_id tm := None))
                  (randomUUID P (ct_uuid_calls st) \<mapsto> snd e)
              \<and> ct_isSending st'
              \<and> ct_sendQueue st' = q
              \<and> last (ct_timers st') =
                  \<lparr>ct_t_id = randomUUID P (ct_uuid_calls st), ct_t_caller = snd e,
                   ct_t_delay = 30000, ct_t_fired = False\<rparr>
              \<and> ct_senders st' =
                  ct_senders (snd (ct_sendChunks P ''REQ'' (randomUUID P (ct_uuid_calls st))
                                     (Some (fst e)) st))
              \<and> ct_writes st' =
                  ct_writes (snd (ct_sendChunks P ''REQ'' (randomUUID P (ct_uuid_calls st))
                                    (Some (fst e)) st))))"

section \<open>A platform to run the model on\<close>

text \<open>
  Messages that are natural numbers: \<^verbatim>\<open>JSON.stringify\<close> gives the decimal digits and
  \<^verbatim>\<open>JSON.parse\<close> reads them back (and fails on any other text); the identifiers are
  \<^verbatim>\<open>u0\<close>, \<^verbatim>\<open>u1\<close>, ...
\<close>

definition digits_text :: "utf16 \<Rightarrow> string option" where
  "digits_text t =
     (let str = map (\<lambda>w. char_of (unat w)) t in
      if str \<noteq> [] \<and> list_all (\<lambda>w. 48 \<le> unat w \<and> unat w \<le> 57) t
           \<and> (length str = 1 \<or> hd str \<noteq> CHR ''0'')
      then Some str else None)"

definition nat_platform :: "nat platform" where
  "nat_platform =
     \<lparr>JSON_stringify = (\<lambda>n. ascii (show_nat n)),
      JSON_parse = (\<lambda>t. case digits_text t of None \<Rightarrow> None | Some str \<Rightarrow> Some (digits_value str)),
      randomUUID = (\<lambda>k. CHR ''u'' # show_nat k)\<rparr>"

text \<open>A tab's URL with a given fragment, and a content side whose secret is \<^verbatim>\<open>s3\<close>.\<close>

definition demo_url :: "string \<Rightarrow> url" where
  "demo_url frag = \<lparr>url_base = ''https://example.org/'', url_hash = CHR ''#'' # frag\<rparr>"

definition page :: "string \<Rightarrow> url option" where
  "page frag = Some (demo_url frag)"

definition ct_demo :: "string \<Rightarrow> nat ct_state" where
  "ct_demo frag = (ct_empty (CHR ''#'' # frag))\<lparr>ct_secret := Some ''s3''\<rparr>"

text \<open>Two requests sent in a row, to tab 7 and from the content side.\<close>

definition bg_two :: "(nat, unit) bg_state" where
  "bg_two = bg_run nat_platform [SendMessage 7 1, SendMessage 7 2]"

definition ct_two :: "nat ct_state" where
  "ct_two = ct_run nat_platform ''#INIT:s3'' [CtSendMessage 1, CtSendMessage 2]"

section \<open>The codec: chunks\<close>

lemma chunkString_loop_Some:
  "0 < sz \<Longrightarrow> \<exists>cs. chunkString_loop str sz i out = Some (out @ cs)
      \<and> concat cs = drop i str
      \<and> length cs = (length str - i + sz - 1) div sz
      \<and> list_all (\<lambda>c. c \<noteq> [] \<and> length c \<le> sz) cs"
proof (induction "length str - i" arbitrary: i out rule: less_induct)
  case less
  show ?case
  proof (cases "i < length str")
    case False
    then have "chunkString_loop str sz i out = Some out"
      by (subst chunkString_loop.simps) simp
    moreover from False less.prems have "(length str - i + sz - 1) div sz = 0"
      by simp
    ultimately show ?thesis using False by simp
  next
    case True
    let ?c = "slice str i (i + sz)"
    from True less.prems have "length str - (i + sz) < length str - i" by simp
    from less.hyps [OF this less.prems, of "out @ [?c]"]
    obtain cs where cs: "chunkString_loop str sz (i + sz) (out @ [?c]) = Some ((out @ [?c]) @ cs)"
      "concat cs = drop (i + sz) str"
      "length cs = (length str - (i + sz) + sz - 1) div sz"
      "list_all (\<lambda>c. c \<noteq> [] \<and> length c \<le> sz) cs"
      by blast
    have eq: "chunkString_loop str sz i out = Some (out @ (?c # cs))"
      using True cs(1) by (subst chunkString_loop.simps) simp
    have "?c = take sz (drop i str)"
      by (simp add: slice_def drop_take)
    moreover have "drop (i + sz) str = drop sz (drop i str)"
      by (simp add: add.commute)
    ultimately have c1: "?c @ drop (i + sz) str = drop i str"
      by (simp only: append_take_drop_id)
    have c2: "?c \<noteq> [] \<and> length ?c \<le> sz"
      using True less.prems by (auto simp add: slice_def min_def)
    have c3: "(length str - i + sz - 1) div sz = Suc (length cs)"
    proof (cases "i + sz \<le> length str")
      case True
      then have a: "length str - (i + sz) + sz - 1 = length str - Suc i"
        using less.prems by simp
      have b: "length str - i + sz - 1 = (length str - Suc i) + sz"
        using \<open>i < length str\<close> by simp
      have "sz \<noteq> 0" using less.prems by simp
      then have "((length str - Suc i) + sz) div sz = (length str - Suc i) div sz + 1"
        by (rule div_add_self2)
      then have "((length str - Suc i) + sz) div sz = Suc ((length str - Suc i) div sz)"
        by (simp only: Suc_eq_plus1)
      then show ?thesis
        by (simp only: a b cs(3))
    next
      case False
      then have "length cs = 0"
        using less.prems cs(3) by simp
      moreover have "sz \<le> length str - i + sz - 1" "length str - i + sz - 1 < sz + sz"
        using \<open>i < length str\<close> False less.prems by simp_all
      then have "(length str - i + sz - 1) div sz = 1"
        by (metis One_nat_def Suc_1 div_nat_eqI mult.commute mult_2 nat_mult_1_right)
      ultimately show ?thesis by simp
    qed
    show ?thesis
      using eq c1 c2 c3 cs(2,4) by simp
  qed
qed

lemma chunkString_Some:
  assumes "0 < sz"
  shows "\<exists>cs. chunkString str sz = Some cs \<and> concat cs = str
      \<and> length cs = (length str + sz - 1) div sz
      \<and> list_all (\<lambda>c. c \<noteq> [] \<and> length c \<le> sz) cs"
  using chunkString_loop_Some [OF assms, of str 0 "[]"] by (simp add: chunkString_def)

lemma chunkSize_pos: "0 < chunkSize"
  by (simp add: chunkSize_def MAX_HASH_BYTES_def OVERHEAD_def)

text \<open>
  Claim C5 says that the encoder always makes at least one chunk, also for an empty
  encoded payload. \<^verbatim>\<open>chunkString\<close> makes none for the empty string: its loop body never
  runs.
\<close>

theorem chunkString_total_counterexample:
  "\<not> (\<exists>cs. chunkString [] (MAX_HASH_BYTES - OVERHEAD) = Some cs \<and> 1 \<le> length cs)"
  by (simp add: chunkString_def chunkString_loop.simps)

text \<open>
  Claim C5, amended: with the chunk size of \<^verbatim>\<open>sendChunks\<close>, \<^verbatim>\<open>MAX_HASH_BYTES - OVERHEAD\<close>,
  \<^verbatim>\<open>chunkString\<close> returns for every string; the chunks joined in order are the string,
  each chunk is at most that long, and their number is the length divided by the
  chunk size, rounded up. That number is 0 exactly for the empty string.
\<close>

theorem chunkString_chunks:
  "\<exists>cs. chunkString str (MAX_HASH_BYTES - OVERHEAD) = Some cs
     \<and> join cs = str
     \<and> list_all (\<lambda>c. length c \<le> MAX_HASH_BYTES - OVERHEAD) cs
     \<and> length cs = (length str + (MAX_HASH_BYTES - OVERHEAD) - 1) div (MAX_HASH_BYTES - OVERHEAD)
     \<and> (length cs = 0 \<longleftrightarrow> str = [])"
proof -
  have pos: "0 < MAX_HASH_BYTES - OVERHEAD"
    by (simp add: MAX_HASH_BYTES_def OVERHEAD_def)
  from chunkString_Some [OF pos, of str] obtain cs where
    cs: "chunkString str (MAX_HASH_BYTES - OVERHEAD) = Some cs" "concat cs = str"
      "length cs = (length str + (MAX_HASH_BYTES - OVERHEAD) - 1) div (MAX_HASH_BYTES - OVERHEAD)"
      "list_all (\<lambda>c. c \<noteq> [] \<and> length c \<le> MAX_HASH_BYTES - OVERHEAD) cs"
    by blast
  have small: "list_all (\<lambda>c. length c \<le> MAX_HASH_BYTES - OVERHEAD) cs"
    using cs(4) by (simp add: list_all_iff)
  have none: "length cs = 0 \<longleftrightarrow> str = []"
  proof
    assume "length cs = 0" then show "str = []" using cs(2) by simp
  next
    assume "str = []"
    then show "length cs = 0" using cs(2,4) by (cases cs) auto
  qed
  show ?thesis
  proof (intro exI conjI)
    show "chunkString str (MAX_HASH_BYTES - OVERHEAD) = Some cs" by (fact cs(1))
    show "join cs = str" using cs(2) by (simp add: join_def)
    show "list_all (\<lambda>c. length c \<le> MAX_HASH_BYTES - OVERHEAD) cs" by (fact small)
    show "length cs = (length str + (MAX_HASH_BYTES - OVERHEAD) - 1) div (MAX_HASH_BYTES - OVERHEAD)"
      by (fact cs(3))
    show "length cs = 0 \<longleftrightarrow> str = []" by (fact none)
  qed
qed

section \<open>Incoming frames\<close>

lemma match_secret_msg_startsWith:
  "match_secret_msg h = Some x \<Longrightarrow> startsWith h ''MSG:''"
  by (simp add: match_secret_msg_def split: if_splits)

lemma match_msg_startsWith:
  "match_msg h = Some x \<Longrightarrow> startsWith h ''MSG:''"
  by (simp add: match_msg_def split: if_splits)

lemma startsWith_MSG_not_INIT:
  "startsWith h ''MSG:'' \<Longrightarrow> \<not> startsWith h ''INIT:''"
  by (cases h) (auto simp add: startsWith_def)

lemma startsWith_MSG_not_ACK:
  "startsWith h ''MSG:'' \<Longrightarrow> h \<noteq> ''ACK:'' @ r"
  by (cases h) (auto simp add: startsWith_def)

lemma handleAck_MSG:
  "startsWith (drop 1 (ct_location_hash st)) ''MSG:'' \<Longrightarrow> handleAck k st = st"
  using startsWith_MSG_not_ACK [of "drop 1 (ct_location_hash st)"]
  by (simp add: handleAck_def ct_expected_ack_def Let_def)

lemma ct_notify_senders_MSG:
  "startsWith (drop 1 (ct_location_hash st)) ''MSG:'' \<Longrightarrow> ct_notify_senders n st = st"
  by (induction n) (simp_all add: ct_notify_senders_def handleAck_MSG)

text \<open>
  Claim C9: on the content side, a \<^verbatim>\<open>MSG\<close> frame whose secret segment is not the stored
  secret (also while no secret is stored) changes nothing: \<^verbatim>\<open>handleIncoming\<close> returns with
  the state as it was, and after the whole \<^verbatim>\<open>hashchange\<close> event (\<^verbatim>\<open>handleIncoming\<close> and
  the \<^verbatim>\<open>handleAck\<close> listeners of all senders) the state differs from the one before only in
  \<^verbatim>\<open>location.hash\<close>, which holds the frame the peer wrote. In particular no reassembly entry,
  pending request or handler invocation changed and nothing was written to the slot.
\<close>

theorem foreign_secret_ignored:
  assumes "match_secret_msg h = Some (sec, type, ident, sq, data)"
    and "ct_secret st \<noteq> Some sec"
  shows "ct_handleIncoming P (st\<lparr>ct_location_hash := CHR ''#'' # h\<rparr>)
           = (None, st\<lparr>ct_location_hash := CHR ''#'' # h\<rparr>)
       \<and> hashchange P (CHR ''#'' # h) st = st\<lparr>ct_location_hash := CHR ''#'' # h\<rparr>"
proof -
  let ?st = "st\<lparr>ct_location_hash := CHR ''#'' # h\<rparr>"
  have msg: "startsWith h ''MSG:''"
    using assms(1) by (rule match_secret_msg_startsWith)
  have inc: "ct_handleIncoming P ?st = (None, ?st)"
    using assms msg startsWith_MSG_not_INIT [OF msg]
    by (auto simp add: ct_handleIncoming_def)
  have "ct_notify_senders (length (ct_senders st)) ?st = ?st"
    using msg by (simp add: ct_notify_senders_MSG)
  then show ?thesis
    using inc by (simp add: hashchange_def ct_report_def)
qed

text \<open>The theorem of claim C9 at a frame that arrives before any secret is stored.\<close>

theorem foreign_secret_ignored_witness:
  "match_secret_msg ''MSG:s3:REQ:r1:0/1:ImFiIg'' = Some (''s3'', ''REQ'', ''r1'', ''0/1'', ''ImFiIg'')
   \<and> ct_secret (ct_empty '''' :: nat ct_state) \<noteq> Some ''s3''
   \<and> hashchange nat_platform ''#MSG:s3:REQ:r1:0/1:ImFiIg'' (ct_empty '''')
        = (ct_empty '''')\<lparr>ct_location_hash := ''#MSG:s3:REQ:r1:0/1:ImFiIg''\<rparr>"
proof -
  have m: "match_secret_msg ''MSG:s3:REQ:r1:0/1:ImFiIg'' = Some (''s3'', ''REQ'', ''r1'', ''0/1'', ''ImFiIg'')"
    by code_simp
  have s: "ct_secret (ct_empty '''' :: nat ct_state) \<noteq> Some ''s3''"
    by (simp add: ct_empty_def)
  show ?thesis
    using foreign_secret_ignored [OF m s, of nat_platform] m s by simp
qed

lemma handleIncoming_matched:
  assumes "match_msg (drop 1 (url_hash u)) = Some (type, ident, sq, data)"
  shows "handleIncoming P tabId u st =
    (case (case incomingBuffers st ident of None \<Rightarrow> new_Array (snd (parse_seq sq)) | Some b \<Rightarrow> Inr b) of
       Inl e \<Rightarrow> (Some e, st)
     | Inr old \<Rightarrow>
         (if is_complete (array_set old (fst (parse_seq sq)) data) (snd (parse_seq sq)) then
            (case parse_payload P (join_array (array_set old (fst (parse_seq sq)) data)) of
               Inl e \<Rightarrow>
                 (Some e,
                  updateTabHash tabId (url_base u) (ack_frame ident (fst (parse_seq sq)))
                    (st\<lparr>incomingBuffers :=
                          (incomingBuffers st)(ident \<mapsto> array_set old (fst (parse_seq sq)) data)\<rparr>))
             | Inr message \<Rightarrow>
                 deliver P tabId type ident message
                   ((updateTabHash tabId (url_base u) (ack_frame ident (fst (parse_seq sq)))
                      (st\<lparr>incomingBuffers :=
                            (incomingBuffers st)(ident \<mapsto> array_set old (fst (parse_seq sq)) data)\<rparr>))
                    \<lparr>incomingBuffers := (incomingBuffers st)(ident := None)\<rparr>))
          else
            (None,
             updateTabHash tabId (url_base u) (ack_frame ident (fst (parse_seq sq)))
               (st\<lparr>incomingBuffers :=
                     (incomingBuffers st)(ident \<mapsto> array_set old (fst (parse_seq sq)) data)\<rparr>))))"
  using assms match_msg_startsWith [OF assms]
  by (simp add: handleIncoming_def Let_def updateTabHash_def split: sum.splits)

lemma ct_handleIncoming_matched:
  assumes "match_secret_msg (drop 1 (ct_location_hash st)) = Some (sec, type, ident, sq, data)"
    and "ct_secret st = Some sec"
  shows "ct_handleIncoming P st =
    (case (case ct_incomingBuffers st ident of None \<Rightarrow> new_Array (snd (parse_seq sq)) | Some b \<Rightarrow> Inr b) of
       Inl e \<Rightarrow> (Some e, st)
     | Inr old \<Rightarrow>
         (if is_complete (array_set old (fst (parse_seq sq)) data) (snd (parse_seq sq)) then
            (case parse_payload P (join_array (array_set old (fst (parse_seq sq)) data)) of
               Inl e \<Rightarrow>
                 (Some e,
                  sendRaw (''ACK:'' @ sec @ '':'' @ ident @ '':'' @ show_num (fst (parse_seq sq)))
                    (st\<lparr>ct_incomingBuffers :=
                          (ct_incomingBuffers st)(ident \<mapsto> array_set old (fst (parse_seq sq)) data)\<rparr>))
             | Inr message \<Rightarrow>
                 ct_deliver P type ident message
                   ((sendRaw (''ACK:'' @ sec @ '':'' @ ident @ '':'' @ show_num (fst (parse_seq sq)))
                      (st\<lparr>ct_incomingBuffers :=
                            (ct_incomingBuffers st)(ident \<mapsto> array_set old (fst (parse_seq sq)) data)\<rparr>))
                    \<lparr>ct_incomingBuffers := (ct_incomingBuffers st)(ident := None)\<rparr>))
          else
            (None,
             sendRaw (''ACK:'' @ sec @ '':'' @ ident @ '':'' @ show_num (fst (parse_seq sq)))
               (st\<lparr>ct_incomingBuffers :=
                     (ct_incomingBuffers st)(ident \<mapsto> array_set old (fst (parse_seq sq)) data)\<rparr>))))"
  using assms match_secret_msg_startsWith [OF assms(1)]
    startsWith_MSG_not_INIT [OF match_secret_msg_startsWith [OF assms(1)]]
  by (simp add: ct_handleIncoming_def Let_def sendRaw_def secret_text_def split: sum.splits)

text \<open>
  Claim C6, amended: a chunk for an identifier that already has a reassembly entry is
  stored in that entry whatever total it reports. The total of the first chunk gave the
  array its length; a later total is compared with nothing but the number of filled
  slots, so while that test fails the entry stays, with the new payload written into it,
  and the chunk is acknowledged. There is no protocol violation and no discard.
\<close>

theorem later_total_unchecked:
  assumes "match_msg (drop 1 (url_hash u)) = Some (type, ident, sq, data)"
    and "incomingBuffers st ident = Some b"
    and "match_secret_msg (drop 1 (ct_location_hash ct)) = Some (sec, type, ident, sq, data)"
    and "ct_secret ct = Some sec"
    and "ct_incomingBuffers ct ident = Some b"
    and "\<not> is_complete (array_set b (fst (parse_seq sq)) data) (snd (parse_seq sq))"
  shows "handleIncoming P tabId u st =
           (None,
            updateTabHash tabId (url_base u) (ack_frame ident (fst (parse_seq sq)))
              (st\<lparr>incomingBuffers :=
                    (incomingBuffers st)(ident \<mapsto> array_set b (fst (parse_seq sq)) data)\<rparr>))
       \<and> ct_handleIncoming P ct =
           (None,
            sendRaw (''ACK:'' @ sec @ '':'' @ ident @ '':'' @ show_num (fst (parse_seq sq)))
              (ct\<lparr>ct_incomingBuffers :=
                    (ct_incomingBuffers ct)(ident \<mapsto> array_set b (fst (parse_seq sq)) data)\<rparr>))"
  using assms(2,5,6)
  by (simp add: handleIncoming_matched [OF assms(1)] ct_handleIncoming_matched [OF assms(3,4)])

text \<open>
  Claim C6 says that a later chunk with another total makes the entry be discarded. Here
  the first chunk of \<^verbatim>\<open>a\<close> reports 3 chunks and the second reports 5: the entry is kept and
  the second payload is written into it.
\<close>

theorem later_total_counterexample:
  "incomingBuffers
     (bg_run nat_platform
        [TabUpdated 7 (page ''MSG:REQ:a:0/3:MQ''), TabUpdated 7 (page ''MSG:REQ:a:1/5:Mg'')]
      :: (nat, unit) bg_state) ''a''
   = Some [Some ''MQ'', Some ''Mg'', None]"
  by code_simp

lemma sendChunks_buffers:
  "sendChunks P t ty i d st = (e, st') \<Longrightarrow> incomingBuffers st' = incomingBuffers st"
  by (auto simp add: sendChunks_def split: sum.splits option.splits)

lemma processQueue_buffers:
  "processQueue P t st = (e, st') \<Longrightarrow> incomingBuffers st' = incomingBuffers st"
  by (auto simp add: processQueue_def Let_def ensureTabState_def set_isSending_def set_queue_def
      split: prod.splits option.splits if_splits dest!: sendChunks_buffers)

lemma run_resolver_buffers:
  "run_resolver P r m st = (e, st') \<Longrightarrow> incomingBuffers st' = incomingBuffers st"
  by (auto simp add: run_resolver_def set_isSending_def settle_def dest!: processQueue_buffers)

lemma deliver_buffers:
  "deliver P t ty i m st = (e, st') \<Longrightarrow> incomingBuffers st' = incomingBuffers st"
  by (auto simp add: deliver_def dispatchRequest_def
      split: if_splits option.splits prod.splits dest!: run_resolver_buffers)

lemma ct_sendChunks_buffers:
  "ct_sendChunks P ty i d st = (e, st') \<Longrightarrow> ct_incomingBuffers st' = ct_incomingBuffers st"
  by (auto simp add: ct_sendChunks_def ct_sendNext_def sendRaw_def Let_def
      split: sum.splits option.splits)

lemma ct_processQueue_buffers:
  "ct_processQueue P st = (e, st') \<Longrightarrow> ct_incomingBuffers st' = ct_incomingBuffers st"
  by (auto simp add: ct_processQueue_def Let_def
      split: prod.splits option.splits if_splits dest!: ct_sendChunks_buffers)

lemma ct_sendResponse_buffers:
  "ct_sendResponse P k v st = (e, st') \<Longrightarrow> ct_incomingBuffers st' = ct_incomingBuffers st"
  by (auto simp add: ct_sendResponse_def ct_set_dispatch_def Let_def
      split: if_splits prod.splits option.splits dest!: ct_sendChunks_buffers)

lemma ct_handlers_loop_buffers:
  "ct_incomingBuffers (ct_handlers_loop P k hs st) = ct_incomingBuffers st"
proof (induction hs arbitrary: st)
  case Nil
  then show ?case by (simp add: ct_set_dispatch_def)
next
  case (Cons h hs)
  show ?case
    by (auto simp add: Let_def Cons.IH ct_set_dispatch_def
        split: hresult.splits prod.splits option.splits dest!: ct_sendResponse_buffers)
qed

lemma ct_deliver_buffers:
  "ct_deliver P ty i m st = (e, st') \<Longrightarrow> ct_incomingBuffers st' = ct_incomingBuffers st"
  by (auto simp add: ct_deliver_def ct_dispatchRequest_def ct_run_resolver_def ct_settle_def
      ct_handlers_loop_buffers
      split: if_splits option.splits prod.splits dest!: ct_processQueue_buffers)

text \<open>
  Claim C7, amended: when a chunk completes an entry (the filled slots are as many as
  the chunk's total) and the joined text decodes, the entry is removed and the message
  is delivered (to \<^verbatim>\<open>dispatchRequest\<close> or to the pending request's resolver); afterwards the
  identifier has no entry. When decoding fails, the exception leaves \<^verbatim>\<open>handleIncoming\<close>:
  nothing is delivered or reported to a handler, and the pending requests, queues,
  senders, timers and the entries of all other identifiers are as before.
\<close>

theorem complete_entry_decoded:
  assumes "match_msg (drop 1 (url_hash u)) = Some (type, ident, sq, data)"
    and "(case incomingBuffers st ident of None \<Rightarrow> new_Array (snd (parse_seq sq)) | Some b \<Rightarrow> Inr b) = Inr old"
    and "match_secret_msg (drop 1 (ct_location_hash ct)) = Some (sec, type, ident, sq, data)"
    and "ct_secret ct = Some sec"
    and "(case ct_incomingBuffers ct ident of None \<Rightarrow> new_Array (snd (parse_seq sq)) | Some b \<Rightarrow> Inr b) = Inr old"
    and "is_complete (array_set old (fst (parse_seq sq)) data) (snd (parse_seq sq))"
  shows "case parse_payload P (join_array (array_set old (fst (parse_seq sq)) data)) of
      Inr message \<Rightarrow>
        handleIncoming P tabId u st =
          deliver P tabId type ident message
            ((updateTabHash tabId (url_base u) (ack_frame ident (fst (parse_seq sq))) st)
             \<lparr>incomingBuffers := (incomingBuffers st)(ident := None)\<rparr>)
        \<and> incomingBuffers (snd (handleIncoming P tabId u st)) ident = None
        \<and> ct_handleIncoming P ct =
          ct_deliver P type ident message
            ((sendRaw (''ACK:'' @ sec @ '':'' @ ident @ '':'' @ show_num (fst (parse_seq sq))) ct)
             \<lparr>ct_incomingBuffers := (ct_incomingBuffers ct)(ident := None)\<rparr>)
        \<and> ct_incomingBuffers (snd (ct_handleIncoming P ct)) ident = None
    | Inl e \<Rightarrow>
        fst (handleIncoming P tabId u st) = Some e
        \<and> others_kept st (snd (handleIncoming P tabId u st)) ident
        \<and> fst (ct_handleIncoming P ct) = Some e
        \<and> ct_others_kept ct (snd (ct_handleIncoming P ct)) ident"
proof (cases "parse_payload P (join_array (array_set old (fst (parse_seq sq)) data))")
  case (Inl e)
  then show ?thesis
    using assms(2,5,6)
    by (simp add: handleIncoming_matched [OF assms(1)] ct_handleIncoming_matched [OF assms(3,4)]
        updateTabHash_def sendRaw_def others_kept_def ct_others_kept_def)
next
  case (Inr message)
  let ?st = "(updateTabHash tabId (url_base u) (ack_frame ident (fst (parse_seq sq))) st)
             \<lparr>incomingBuffers := (incomingBuffers st)(ident := None)\<rparr>"
  let ?ct = "(sendRaw (''ACK:'' @ sec @ '':'' @ ident @ '':'' @ show_num (fst (parse_seq sq))) ct)
             \<lparr>ct_incomingBuffers := (ct_incomingBuffers ct)(ident := None)\<rparr>"
  have a: "handleIncoming P tabId u st = deliver P tabId type ident message ?st"
    using assms(2,6) Inr
    by (simp add: handleIncoming_matched [OF assms(1)] updateTabHash_def)
  have b: "ct_handleIncoming P ct = ct_deliver P type ident message ?ct"
    using assms(5,6) Inr
    by (simp add: ct_handleIncoming_matched [OF assms(3,4)] sendRaw_def)
  have c: "incomingBuffers (snd (deliver P tabId type ident message ?st)) = incomingBuffers ?st"
    using deliver_buffers [of P tabId type ident message ?st] by (metis prod.collapse)
  have d: "ct_incomingBuffers (snd (ct_deliver P type ident message ?ct)) = ct_incomingBuffers ?ct"
    using ct_deliver_buffers [of P type ident message ?ct] by (metis prod.collapse)
  show ?thesis
    using Inr a b c d by simp
qed

text \<open>The theorem of claim C6 at that second chunk.\<close>

theorem later_total_unchecked_witness:
  "match_msg (drop 1 (url_hash (demo_url ''MSG:REQ:a:1/5:Mg''))) = Some (''REQ'', ''a'', ''1/5'', ''Mg'')
   \<and> incomingBuffers ((bg_init :: (nat, unit) bg_state)\<lparr>incomingBuffers := [''a'' \<mapsto> [Some ''MQ'', None, None]]\<rparr>) ''a''
        = Some [Some ''MQ'', None, None]
   \<and> \<not> is_complete (array_set [Some ''MQ'', None, None] (fst (parse_seq ''1/5'')) ''Mg'') (snd (parse_seq ''1/5''))
   \<and> handleIncoming nat_platform 7 (demo_url ''MSG:REQ:a:1/5:Mg'')
        ((bg_init :: (nat, unit) bg_state)\<lparr>incomingBuffers := [''a'' \<mapsto> [Some ''MQ'', None, None]]\<rparr>)
      = (None,
         updateTabHash 7 (url_base (demo_url ''MSG:REQ:a:1/5:Mg'')) (ack_frame ''a'' (fst (parse_seq ''1/5'')))
           ((bg_init :: (nat, unit) bg_state)\<lparr>incomingBuffers :=
               [''a'' \<mapsto> array_set [Some ''MQ'', None, None] (fst (parse_seq ''1/5'')) ''Mg'']\<rparr>))"
proof -
  let ?st = "(bg_init :: (nat, unit) bg_state)\<lparr>incomingBuffers := [''a'' \<mapsto> [Some ''MQ'', None, None]]\<rparr>"
  let ?ct = "(ct_demo ''MSG:s3:REQ:a:1/5:Mg'')\<lparr>ct_incomingBuffers := [''a'' \<mapsto> [Some ''MQ'', None, None]]\<rparr>"
  have 1: "match_msg (drop 1 (url_hash (demo_url ''MSG:REQ:a:1/5:Mg''))) = Some (''REQ'', ''a'', ''1/5'', ''Mg'')"
    by code_simp
  have 2: "incomingBuffers ?st ''a'' = Some [Some ''MQ'', None, None]"
    by simp
  have 3: "match_secret_msg (drop 1 (ct_location_hash ?ct)) = Some (''s3'', ''REQ'', ''a'', ''1/5'', ''Mg'')"
    by code_simp
  have 4: "ct_secret ?ct = Some ''s3''"
    by (simp add: ct_demo_def)
  have 5: "ct_incomingBuffers ?ct ''a'' = Some [Some ''MQ'', None, None]"
    by simp
  have 6: "\<not> is_complete (array_set [Some ''MQ'', None, None] (fst (parse_seq ''1/5'')) ''Mg'') (snd (parse_seq ''1/5''))"
    by code_simp
  show ?thesis
    using later_total_unchecked [OF 1 2 3 4 5 6, of nat_platform 7] 1 2 6 by simp
qed

text \<open>
  Claim C7 says that a completed entry never stays and that a decode failure is reported
  as a dispatch failure. \<^verbatim>\<open>!\<close> is not base64: \<^verbatim>\<open>atob\<close> throws, the exception leaves the
  listener uncaught, and the completed entry is still there.
\<close>

theorem complete_entry_counterexample:
  "incomingBuffers
     (bg_run nat_platform [TabUpdated 7 (page ''MSG:REQ:a:0/1:!'')] :: (nat, unit) bg_state) ''a''
     = Some [Some ''!'']
   \<and> uncaught
     (bg_run nat_platform [TabUpdated 7 (page ''MSG:REQ:a:0/1:!'')] :: (nat, unit) bg_state)
     = [InvalidCharacterError]"
  by code_simp

text \<open>The theorem of claim C7 at a single-chunk request, on both sides.\<close>

theorem complete_entry_decoded_witness:
  "match_msg (drop 1 (url_hash (demo_url ''MSG:REQ:a:0/1:MQ''))) = Some (''REQ'', ''a'', ''0/1'', ''MQ'')
   \<and> is_complete (array_set [None] (fst (parse_seq ''0/1'')) ''MQ'') (snd (parse_seq ''0/1''))
   \<and> (case parse_payload nat_platform (join_array (array_set [None] (fst (parse_seq ''0/1'')) ''MQ'')) of
      Inr message \<Rightarrow>
        handleIncoming nat_platform 7 (demo_url ''MSG:REQ:a:0/1:MQ'') (bg_init :: (nat, unit) bg_state) =
          deliver nat_platform 7 ''REQ'' ''a'' message
            ((updateTabHash 7 (url_base (demo_url ''MSG:REQ:a:0/1:MQ''))
                 (ack_frame ''a'' (fst (parse_seq ''0/1''))) bg_init)
             \<lparr>incomingBuffers := (incomingBuffers (bg_init :: (nat, unit) bg_state))(''a'' := None)\<rparr>)
        \<and> incomingBuffers (snd (handleIncoming nat_platform 7 (demo_url ''MSG:REQ:a:0/1:MQ'')
               (bg_init :: (nat, unit) bg_state))) ''a'' = None
        \<and> ct_handleIncoming nat_platform (ct_demo ''MSG:s3:REQ:a:0/1:MQ'') =
          ct_deliver nat_platform ''REQ'' ''a'' message
            ((sendRaw (''ACK:'' @ ''s3'' @ '':'' @ ''a'' @ '':'' @ show_num (fst (parse_seq ''0/1'')))
                (ct_demo ''MSG:s3:REQ:a:0/1:MQ''))
             \<lparr>ct_incomingBuffers := (ct_incomingBuffers (ct_demo ''MSG:s3:REQ:a:0/1:MQ''))(''a'' := None)\<rparr>)
        \<and> ct_incomingBuffers (snd (ct_handleIncoming nat_platform (ct_demo ''MSG:s3:REQ:a:0/1:MQ''))) ''a''
            = None
    | Inl e \<Rightarrow>
        fst (handleIncoming nat_platform 7 (demo_url ''MSG:REQ:a:0/1:MQ'') (bg_init :: (nat, unit) bg_state))
          = Some e
        \<and> others_kept bg_init
             (snd (handleIncoming nat_platform 7 (demo_url ''MSG:REQ:a:0/1:MQ'') (bg_init :: (nat, unit) bg_state)))
             ''a''
        \<and> fst (ct_handleIncoming nat_platform (ct_demo ''MSG:s3:REQ:a:0/1:MQ'')) = Some e
        \<and> ct_others_kept (ct_demo ''MSG:s3:REQ:a:0/1:MQ'')
             (snd (ct_handleIncoming nat_platform (ct_demo ''MSG:s3:REQ:a:0/1:MQ''))) ''a'')"
proof -
  let ?st = "bg_init :: (nat, unit) bg_state"
  let ?ct = "ct_demo ''MSG:s3:REQ:a:0/1:MQ''"
  have 1: "match_msg (drop 1 (url_hash (demo_url ''MSG:REQ:a:0/1:MQ''))) = Some (''REQ'', ''a'', ''0/1'', ''MQ'')"
    by code_simp
  have 2: "(case incomingBuffers ?st ''a'' of None \<Rightarrow> new_Array (snd (parse_seq ''0/1'')) | Some b \<Rightarrow> Inr b) = Inr [None]"
    by code_simp
  have 3: "match_secret_msg (drop 1 (ct_location_hash ?ct)) = Some (''s3'', ''REQ'', ''a'', ''0/1'', ''MQ'')"
    by code_simp
  have 4: "ct_secret ?ct = Some ''s3''"
    by (simp add: ct_demo_def)
  have 5: "(case ct_incomingBuffers ?ct ''a'' of None \<Rightarrow> new_Array (snd (parse_seq ''0/1'')) | Some b \<Rightarrow> Inr b) = Inr [None]"
    by code_simp
  have 6: "is_complete (array_set [None] (fst (parse_seq ''0/1'')) ''MQ'') (snd (parse_seq ''0/1''))"
    by code_simp
  show ?thesis
    using complete_entry_decoded [OF 1 2 3 4 5 6, of nat_platform 7] 1 6
    by (intro conjI) assumption+
qed

section \<open>The encoder on well-formed text\<close>

lemma chunkString_chunkSize:
  "\<exists>cs. chunkString str chunkSize = Some cs"
  using chunkString_Some [OF chunkSize_pos, of str] by blast

lemma of_char_less_256: "(of_char c :: nat) < 256"
proof -
  have "(of_char c :: nat) mod 256 < 256" by simp
  then show ?thesis by (simp only: of_char_mod_256)
qed

lemma unat_of_char: "unat (of_nat (of_char c) :: 16 word) = of_char c"
proof -
  have "(of_char c :: nat) < 65536" using of_char_less_256 [of c] by linarith
  then show ?thesis by (simp add: unat_of_nat)
qed

lemma ascii_not_surrogate:
  "\<not> is_lead (of_nat (of_char c))" "\<not> is_trail (of_nat (of_char c))"
  using of_char_less_256 [of c] by (simp_all only: is_lead_def is_trail_def unat_of_char) linarith+

lemma codePoints_ascii: "codePoints (ascii str) = Inr (map of_char str)"
proof (induction str rule: induct_list012)
  case 1
  then show ?case by (simp add: ascii_def)
next
  case (2 x)
  then show ?case
    by (simp add: ascii_def ascii_not_surrogate unat_of_char)
next
  case (3 x y zs)
  then show ?case
    by (simp add: ascii_def ascii_not_surrogate unat_of_char)
qed

lemma well_formed_ascii: "well_formed (ascii str)"
  by (simp add: well_formed_def codePoints_ascii)

lemma encode_chunks_Some:
  assumes "serializable P"
  shows "\<exists>chunks. encode_chunks P data = Inr (Some chunks)"
proof -
  have "well_formed (stringify P data)"
    using assms by (cases data) (simp_all add: stringify_def serializable_def well_formed_ascii)
  then obtain b where "encodeBase64 (stringify P data) = Inr b"
    by (auto simp add: well_formed_def encodeBase64_def unescape_encodeURIComponent_def
        split: sum.splits)
  then show ?thesis
    using chunkString_chunkSize [of b] by (auto simp add: encode_chunks_def)
qed

lemma serializable_nat_platform: "serializable nat_platform"
  by (simp add: serializable_def nat_platform_def well_formed_ascii)

lemma sendChunks_no_exception:
  "serializable P \<Longrightarrow> fst (sendChunks P t ty i v st) = None"
  using encode_chunks_Some [of P v] by (auto simp add: sendChunks_def)

lemma ct_sendChunks_no_exception:
  "serializable P \<Longrightarrow> fst (ct_sendChunks P ty i v st) = None"
  using encode_chunks_Some [of P v] by (auto simp add: ct_sendChunks_def)

end
